theory Spec2Isabelle
  imports Main "HOL-Library.AList"
begin

section \<open>Values, documents and filters\<close>

text \<open>
  A shallow embedding of the todo and list controllers (\<^verbatim>\<open>src/controllers/todo.ts\<close>,
  \<^verbatim>\<open>src/controllers/list.ts\<close>) and of \<^verbatim>\<open>generateUserTokens\<close>.

  Values a request can carry (the JavaScript values of \<^verbatim>\<open>req.params\<close>, \<^verbatim>\<open>req.query\<close> and
  \<^verbatim>\<open>req.body\<close>). Numbers are integers; \<^verbatim>\<open>NaN\<close> is kept apart because it is falsy. Objects
  and arrays in a body are not modelled.
\<close>

datatype jsval = JUndefined | JNull | JBool bool | JNum int | JNaN | JStr string

text \<open>JavaScript truthiness, and \<^verbatim>\<open>a || b\<close>.\<close>

fun truthy :: "jsval \<Rightarrow> bool" where
  "truthy JUndefined = False"
| "truthy JNull = False"
| "truthy (JBool b) = b"
| "truthy (JNum n) = (n \<noteq> 0)"
| "truthy JNaN = False"
| "truthy (JStr s) = (s \<noteq> [])"

definition js_or :: "jsval \<Rightarrow> jsval \<Rightarrow> jsval" where
  "js_or a b = (if truthy a then a else b)"

text \<open>Template-literal conversion \<^verbatim>\<open>`${v}`\<close> of a request value.\<close>

fun digit_char :: "nat \<Rightarrow> char" where
  "digit_char n = char_of (48 + n)"

fun string_of_nat :: "nat \<Rightarrow> string" where
  "string_of_nat n = (if n < 10 then [digit_char n] else string_of_nat (n div 10) @ [digit_char (n mod 10)])"

fun js_toString :: "jsval \<Rightarrow> string" where
  "js_toString JUndefined = ''undefined''"
| "js_toString JNull = ''null''"
| "js_toString (JBool b) = (if b then ''true'' else ''false'')"
| "js_toString (JNum n) = (if n < 0 then ''-'' @ string_of_nat (nat (- n)) else string_of_nat (nat n))"
| "js_toString JNaN = ''NaN''"
| "js_toString (JStr s) = s"

text \<open>
  A stored ObjectId, identified with the hexadecimal string it was built from
  (\<^verbatim>\<open>toHexString\<close> reads it back).
\<close>

datatype objectId = ObjectId string

fun toHexString :: "objectId \<Rightarrow> string" where
  "toHexString (ObjectId h) = h"

text \<open>
  Stored field values. A date is a number of milliseconds on the server's clock (one
  fixed time zone, no daylight-saving shifts).
\<close>

datatype val = VNull | VBool bool | VNum int | VStr string | VId objectId | VDate int

text \<open>A document is a JavaScript object: an association list from field names to values.\<close>

type_synonym doc = "(string \<times> val) list"

text \<open>
  Filter conditions on one field: equality with a value (\<^verbatim>\<open>{f: v}\<close>) and the range
  \<^verbatim>\<open>{f: {$gte: a, $lte: b}}\<close>. A filter is an object of field conditions or an
  \<^verbatim>\<open>$and\<close> of filters.
\<close>

datatype cond = Eq val | GteLte val val

datatype filterQuery = Fields "(string \<times> cond) list" | And "filterQuery list"

text \<open>
  The store's comparison order on values: values of different types are ordered by type
  (null and missing, numbers, strings, ObjectIds, booleans, dates), values of one type
  by their content.
\<close>

fun val_rank :: "val option \<Rightarrow> nat" where
  "val_rank None = 0"
| "val_rank (Some VNull) = 0"
| "val_rank (Some (VNum n)) = 1"
| "val_rank (Some (VStr s)) = 2"
| "val_rank (Some (VId i)) = 3"
| "val_rank (Some (VBool b)) = 4"
| "val_rank (Some (VDate t)) = 5"

fun str_less :: "string \<Rightarrow> string \<Rightarrow> bool" where
  "str_less [] [] = False"
| "str_less [] (y # ys) = True"
| "str_less (x # xs) [] = False"
| "str_less (x # xs) (y # ys) =
     ((of_char x :: nat) < of_char y \<or> (x = y \<and> str_less xs ys))"

fun same_type_less :: "val option \<Rightarrow> val option \<Rightarrow> bool" where
  "same_type_less (Some (VNum a)) (Some (VNum b)) = (a < b)"
| "same_type_less (Some (VStr a)) (Some (VStr b)) = str_less a b"
| "same_type_less (Some (VId a)) (Some (VId b)) = str_less (toHexString a) (toHexString b)"
| "same_type_less (Some (VBool a)) (Some (VBool b)) = (\<not> a \<and> b)"
| "same_type_less (Some (VDate a)) (Some (VDate b)) = (a < b)"
| "same_type_less x y = False"

definition val_less :: "val option \<Rightarrow> val option \<Rightarrow> bool" where
  "val_less x y = (val_rank x < val_rank y \<or> (val_rank x = val_rank y \<and> same_type_less x y))"

text \<open>
  Whether a field (absent: \<open>None\<close>) satisfies a condition. Equality with null also holds
  for an absent field; a range only holds for a value of the bounds' type.
\<close>

fun cond_holds :: "cond \<Rightarrow> val option \<Rightarrow> bool" where
  "cond_holds (Eq v) x = (if v = VNull then x = None \<or> x = Some VNull else x = Some v)"
| "cond_holds (GteLte a b) x =
     (val_rank x = val_rank (Some a) \<and> val_rank x = val_rank (Some b) \<and> x \<noteq> None \<and>
      \<not> val_less x (Some a) \<and> \<not> val_less (Some b) x)"

fun fields_hold :: "(string \<times> cond) list \<Rightarrow> doc \<Rightarrow> bool" where
  "fields_hold [] d = True"
| "fields_hold ((k, c) # cs) d = (cond_holds c (map_of d k) \<and> fields_hold cs d)"

fun matches :: "filterQuery \<Rightarrow> doc \<Rightarrow> bool" where
  "matches (Fields cs) d = fields_hold cs d"
| "matches (And fs) d = list_all (\<lambda>f. matches f d) fs"

section \<open>The document store\<close>

text \<open>
  One collection of the store (a Mongoose model): its documents in natural order, and
  the calls the controllers have issued to it, oldest first. The log makes "the filter
  passed to the store" and "before any store access" statements about the state.
\<close>

record query_options =
  opt_limit :: nat
  opt_skip :: nat
  opt_sort :: "(string \<times> int) list"

datatype call =
    Find filterQuery "query_options option"
  | CountDocuments filterQuery
  | FindOneAndUpdate filterQuery doc
  | FindOneAndDelete filterQuery

record model_state =
  docs :: "doc list"
  calls :: "call list"

text \<open>An update document \<^verbatim>\<open>{k1: v1, ...}\<close> sets each of its fields on the matched document.\<close>

definition apply_update :: "doc \<Rightarrow> doc \<Rightarrow> doc" where
  "apply_update upd d = fold (\<lambda>(k, v). AList.update k v) upd d"

text \<open>
  The first element that satisfies \<open>P\<close> is replaced by its image under \<open>g\<close>
  (respectively removed); the result is the new element (the removed one), or \<open>None\<close>.
\<close>

fun update_first :: "('a \<Rightarrow> bool) \<Rightarrow> ('a \<Rightarrow> 'a) \<Rightarrow> 'a list \<Rightarrow> 'a option \<times> 'a list" where
  "update_first P g [] = (None, [])"
| "update_first P g (d # ds) =
     (if P d then (Some (g d), g d # ds)
      else (case update_first P g ds of (r, ds') \<Rightarrow> (r, d # ds')))"

fun delete_first :: "('a \<Rightarrow> bool) \<Rightarrow> 'a list \<Rightarrow> 'a option \<times> 'a list" where
  "delete_first P [] = (None, [])"
| "delete_first P (d # ds) =
     (if P d then (Some d, ds)
      else (case delete_first P ds of (r, ds') \<Rightarrow> (r, d # ds')))"

text \<open>\<^verbatim>\<open>Model.findOneAndUpdate(filter, update, {new: true})\<close>: the updated document, or null.\<close>

definition findOneAndUpdate :: "filterQuery \<Rightarrow> doc \<Rightarrow> model_state \<Rightarrow> doc option \<times> model_state" where
  "findOneAndUpdate f upd s =
     (case update_first (matches f) (apply_update upd) (docs s) of
        (r, ds) \<Rightarrow> (r, s\<lparr>docs := ds, calls := calls s @ [FindOneAndUpdate f upd]\<rparr>))"

text \<open>\<^verbatim>\<open>Model.findOneAndDelete(filter)\<close>: the deleted document, or null.\<close>

definition findOneAndDelete :: "filterQuery \<Rightarrow> model_state \<Rightarrow> doc option \<times> model_state" where
  "findOneAndDelete f s =
     (case delete_first (matches f) (docs s) of
        (r, ds) \<Rightarrow> (r, s\<lparr>docs := ds, calls := calls s @ [FindOneAndDelete f]\<rparr>))"

text \<open>
  Sorting by a sort specification \<^verbatim>\<open>{k: 1 | -1, ...}\<close>: \<open>precedes\<close> says that a document
  comes strictly before another; the sort is an insertion sort that keeps the natural
  order of documents the specification does not separate.
\<close>

fun precedes :: "(string \<times> int) list \<Rightarrow> doc \<Rightarrow> doc \<Rightarrow> bool" where
  "precedes [] a b = False"
| "precedes ((k, dir) # ks) a b =
     (let x = map_of a k; y = map_of b k in
      if dir < 0 then val_less y x \<or> (\<not> val_less x y \<and> precedes ks a b)
      else val_less x y \<or> (\<not> val_less y x \<and> precedes ks a b))"

fun insert_doc :: "(string \<times> int) list \<Rightarrow> doc \<Rightarrow> doc list \<Rightarrow> doc list" where
  "insert_doc spec d [] = [d]"
| "insert_doc spec d (e # es) =
     (if precedes spec e d then e # insert_doc spec d es else d # e # es)"

definition sort_docs :: "(string \<times> int) list \<Rightarrow> doc list \<Rightarrow> doc list" where
  "sort_docs spec ds = foldr (insert_doc spec) ds []"

text \<open>\<^verbatim>\<open>Model.find(filter, null, options)\<close> and \<^verbatim>\<open>Model.find(filter)\<close>.\<close>

definition find_docs :: "filterQuery \<Rightarrow> query_options option \<Rightarrow> model_state \<Rightarrow> doc list \<times> model_state" where
  "find_docs f opts s =
     (let found = filter (matches f) (docs s);
          result = (case opts of
                      None \<Rightarrow> found
                    | Some opt \<Rightarrow> take (opt_limit opt) (drop (opt_skip opt) (sort_docs (opt_sort opt) found)))
      in (result, s\<lparr>calls := calls s @ [Find f opts]\<rparr>))"

text \<open>\<^verbatim>\<open>Model.countDocuments(filter)\<close>.\<close>

definition countDocuments :: "filterQuery \<Rightarrow> model_state \<Rightarrow> nat \<times> model_state" where
  "countDocuments f s =
     (length (filter (matches f) (docs s)), s\<lparr>calls := calls s @ [CountDocuments f]\<rparr>)"

section \<open>Requests, responses and errors\<close>

text \<open>
  An Express request as the controllers read it: route parameters and query parameters
  are strings, body fields are arbitrary values, and \<open>user\<close> is the \<^verbatim>\<open>_id\<close> of the
  authenticated user that the middleware attached (\<^verbatim>\<open>(<ICustomRequest>req).user\<close>).
\<close>

record request =
  params :: "(string \<times> string) list"
  query :: "(string \<times> string) list"
  body :: "(string \<times> jsval) list"
  user :: objectId

definition req_param :: "request \<Rightarrow> string \<Rightarrow> jsval" where
  "req_param req k = (case map_of (params req) k of None \<Rightarrow> JUndefined | Some v \<Rightarrow> JStr v)"

definition req_query :: "request \<Rightarrow> string \<Rightarrow> jsval" where
  "req_query req k = (case map_of (query req) k of None \<Rightarrow> JUndefined | Some v \<Rightarrow> JStr v)"

definition req_body :: "request \<Rightarrow> string \<Rightarrow> jsval" where
  "req_body req k = (case map_of (body req) k of None \<Rightarrow> JUndefined | Some v \<Rightarrow> v)"

text \<open>The result of a field validator: \<^verbatim>\<open>{error: boolean, text?: string}\<close>.\<close>

record validation =
  v_error :: bool
  v_text :: "string option"

text \<open>
  What a controller hands to \<^verbatim>\<open>next(err)\<close>: an error made by \<^verbatim>\<open>createError\<close> (status,
  message, and the validation map when one was given), or an exception thrown by library
  code inside the \<^verbatim>\<open>try\<close> block.
\<close>

datatype err =
    HttpError nat "string option" "(string \<times> validation) list option"
  | Thrown

text \<open>What a controller sends with \<^verbatim>\<open>res.status(n).json({...})\<close>.\<close>

datatype json_value = JsString string | JsNumber nat | JsDoc doc | JsDocs "doc list"

record response =
  res_status :: nat
  res_json :: "(string \<times> json_value) list"

text \<open>
  The libraries the controllers call, as parameters:
  \<^item> \<open>now\<close>: the date \<^verbatim>\<open>moment().toDate()\<close> returns during the request;
  \<^item> \<open>ObjectId_isValid\<close>: \<^verbatim>\<open>Types.ObjectId.isValid\<close>;
  \<^item> \<open>new_ObjectId\<close>: \<^verbatim>\<open>new Types.ObjectId(v)\<close>, \<open>None\<close> when the constructor throws;
  \<^item> \<open>moment_parse\<close>: \<^verbatim>\<open>moment(v, 'MM-DD-YYYY')\<close>, the calendar day it denotes as a number
    of days (the format has no time fields, so the moment is that day at 00:00:00.000),
    \<open>None\<close> when \<^verbatim>\<open>isValid()\<close> is false;
  \<^item> \<open>moment_toDate\<close>: \<^verbatim>\<open>moment(v).toDate()\<close>, \<open>None\<close> for an invalid date (which the
    store's casting rejects);
  \<^item> \<open>cast\<close>: the value the object-document mapper stores for a raw update value of a
    field, \<open>None\<close> when it drops the key from the update.
\<close>

record libs =
  now :: int
  ObjectId_isValid :: "jsval \<Rightarrow> bool"
  new_ObjectId :: "jsval \<Rightarrow> objectId option"
  moment_parse :: "jsval \<Rightarrow> int option"
  moment_toDate :: "jsval \<Rightarrow> int option"
  cast :: "string \<Rightarrow> jsval \<Rightarrow> val option"

definition cast_fields :: "libs \<Rightarrow> (string \<times> jsval) list \<Rightarrow> doc" where
  "cast_fields L kvs = List.map_filter (\<lambda>(k, v). map_option (Pair k) (cast L k v)) kvs"

text \<open>Moments are milliseconds; \<^verbatim>\<open>set({h: 0, m: 0, s: 0})\<close> keeps the milliseconds.\<close>

definition day_ms :: int where
  "day_ms = 86400000"

definition moment_set_hms0 :: "int \<Rightarrow> int" where
  "moment_set_hms0 t = t - t mod day_ms + t mod 1000"

definition moment_add_days :: "int \<Rightarrow> int \<Rightarrow> int" where
  "moment_add_days n t = t + n * day_ms"

text \<open>
  The validators of \<^verbatim>\<open>@/utils/validator\<close> and the enum \<^verbatim>\<open>TodoPriority\<close> of \<^verbatim>\<open>@/types/todo\<close>
  are parameters of the controllers: \<open>TodoPriority_values\<close> is \<^verbatim>\<open>Object.values(TodoPriority)\<close>.
\<close>

record todoValidator =
  TodoValidator_Id :: "jsval \<Rightarrow> validation"
  TodoValidator_UserId :: "jsval \<Rightarrow> validation"
  TodoValidator_ListId :: "jsval \<Rightarrow> validation"
  TodoValidator_Name :: "jsval \<Rightarrow> validation"
  TodoValidator_Notes :: "jsval \<Rightarrow> validation"
  TodoValidator_URL :: "jsval \<Rightarrow> validation"
  TodoValidator_Due :: "jsval \<Rightarrow> validation"
  TodoValidator_Priority :: "jsval \<Rightarrow> validation"


record todoPriority =
  TodoPriority_NONE :: jsval
  TodoPriority_values :: "jsval list"

text \<open>\<^verbatim>\<open>Object.values(validations).every((v) => v.error === false)\<close>.\<close>

definition all_valid :: "(string \<times> validation) list \<Rightarrow> bool" where
  "all_valid vs = list_all (\<lambda>(k, v). v_error v = False) vs"

text \<open>The \<^verbatim>\<open>name\<close> of a stored document inside a template literal.\<close>

definition doc_name :: "doc \<Rightarrow> string" where
  "doc_name d = (case map_of d ''name'' of Some (VStr n) \<Rightarrow> n | _ \<Rightarrow> ''undefined'')"

definition quoted :: "string \<Rightarrow> string" where
  "quoted n = [CHR 0x22] @ n @ [CHR 0x22]"

definition not_found_message :: "jsval \<Rightarrow> string" where
  "not_found_message i = ''Todo with ID '' @ js_toString i @ '' is not found!''"

section \<open>The todo controller\<close>

text \<open>
  \<^verbatim>\<open>GetAllTodos\<close>. The conditions start as \<^verbatim>\<open>{completed: false, due: now}\<close>; the options
  are \<^verbatim>\<open>listId = req.query.listId || null\<close> and \<^verbatim>\<open>due = req.query.due || 'all'\<close>.
\<close>

definition listId_option :: "libs \<Rightarrow> jsval \<Rightarrow> (string \<times> cond) list \<Rightarrow> err + (string \<times> cond) list" where
  "listId_option L listId conditions =
     (if truthy listId then
        (if ObjectId_isValid L listId then
           (case new_ObjectId L listId of
              None \<Rightarrow> Inl Thrown
            | Some oid \<Rightarrow> Inr (AList.update ''listId'' (Eq (VId oid)) conditions))
         else Inl (HttpError 400 (Some ''Invalid list ID!'') None))
      else Inr conditions)"

definition due_option :: "libs \<Rightarrow> jsval \<Rightarrow> (string \<times> cond) list \<Rightarrow> err + (string \<times> cond) list" where
  "due_option L due conditions =
     (if due = JStr ''all'' then Inr (AList.delete ''due'' conditions)
      else (case moment_parse L due of
              Some day \<Rightarrow>
                (let due_m = moment_set_hms0 (day * day_ms) in
                 Inr (AList.update ''due''
                        (GteLte (VDate due_m) (VDate (moment_add_days 1 due_m))) conditions))
            | None \<Rightarrow> Inl (HttpError 400 (Some ''Invalid due option!'') None)))"

definition GetAllTodos :: "libs \<Rightarrow> request \<Rightarrow> model_state \<Rightarrow> (err + response) \<times> model_state" where
  "GetAllTodos L req s =
     (let conditions = [(''completed'', Eq (VBool False)), (''due'', Eq (VDate (now L)))];
          listId = js_or (req_query req ''listId'') JNull;
          due = js_or (req_query req ''due'') (JStr ''all'')
      in case listId_option L listId conditions of
           Inl e \<Rightarrow> (Inl e, s)
         | Inr conditions1 \<Rightarrow>
             (case due_option L due conditions1 of
                Inl e \<Rightarrow> (Inl e, s)
              | Inr conditions2 \<Rightarrow>
                  (case find_docs (Fields conditions2) None s of
                     (todos, s1) \<Rightarrow>
                       (case countDocuments (Fields conditions2) s1 of
                          (count, s2) \<Rightarrow>
                            (Inr \<lparr>res_status = 200,
                                  res_json = [(''total'', JsNumber count), (''todos'', JsDocs todos)]\<rparr>,
                             s2)))))"

text \<open>The ID a single-todo operation works on: \<^verbatim>\<open>req.params.todoId || req.query.todoId || req.body._id\<close>.\<close>

definition todo_id :: "request \<Rightarrow> jsval" where
  "todo_id req = js_or (req_param req ''todoId'') (js_or (req_query req ''todoId'') (req_body req ''_id''))"

definition UpdateTodo ::
  "libs \<Rightarrow> todoValidator \<Rightarrow> todoPriority \<Rightarrow> request \<Rightarrow> model_state \<Rightarrow> (err + response) \<times> model_state" where
  "UpdateTodo L V P req s =
     (let userId = user req;
          fd_id = todo_id req;
          fd_userId = JStr (toHexString userId);
          fd_listId = req_body req ''listId'';
          fd_name = req_body req ''name'';
          fd_notes = js_or (req_body req ''notes'') JNull;
          fd_url = js_or (req_body req ''url'') JNull;
          fd_due = req_body req ''due'';
          fd_priority = js_or (req_body req ''priority'') (TodoPriority_NONE P);
          validations =
            [(''_id'', TodoValidator_Id V fd_id),
             (''userId'', TodoValidator_UserId V fd_userId),
             (''listId'', TodoValidator_ListId V fd_listId),
             (''name'', TodoValidator_Name V fd_name),
             (''notes'', TodoValidator_Notes V fd_notes),
             (''url'', TodoValidator_URL V fd_url),
             (''due'', TodoValidator_Due V fd_due),
             (''priority'', TodoValidator_Priority V fd_priority)]
      in if \<not> all_valid validations
         then (Inl (HttpError 400 (Some ''Bad Request'') (Some validations)), s)
         else
           (case new_ObjectId L fd_id of
              None \<Rightarrow> (Inl Thrown, s)
            | Some oid \<Rightarrow>
                (case new_ObjectId L fd_userId of
                   None \<Rightarrow> (Inl Thrown, s)
                 | Some uid \<Rightarrow>
                     (case moment_toDate L fd_due of
                        None \<Rightarrow> (Inl Thrown, s)
                      | Some t \<Rightarrow>
                          (case findOneAndUpdate (Fields [(''_id'', Eq (VId oid))])
                                  (cast_fields L [(''listId'', fd_listId)]
                                   @ [(''userId'', VId uid)]
                                   @ cast_fields L [(''name'', fd_name), (''notes'', fd_notes), (''url'', fd_url)]
                                   @ [(''due'', VDate t)]
                                   @ cast_fields L [(''priority'', fd_priority)]) s of
                             (None, s') \<Rightarrow>
                               (Inl (HttpError 404 (Some (not_found_message fd_id)) None), s')
                           | (Some updatedTodo, s') \<Rightarrow>
                               (Inr \<lparr>res_status = 200,
                                     res_json = [(''message'', JsString (''Updated '' @ quoted (doc_name updatedTodo))),
                                                 (''todo'', JsDoc updatedTodo)]\<rparr>,
                                s'))))))"

definition CompleteTodo :: "libs \<Rightarrow> todoValidator \<Rightarrow> request \<Rightarrow> model_state \<Rightarrow> (err + response) \<times> model_state" where
  "CompleteTodo L V req s =
     (let i = todo_id req;
          validation = TodoValidator_Id V i
      in if v_error validation then (Inl (HttpError 400 (v_text validation) None), s)
         else
           (case new_ObjectId L i of
              None \<Rightarrow> (Inl Thrown, s)
            | Some oid \<Rightarrow>
                (case findOneAndUpdate (Fields [(''_id'', Eq (VId oid))]) [(''completed'', VBool True)] s of
                   (None, s') \<Rightarrow> (Inl (HttpError 404 (Some (not_found_message i)) None), s')
                 | (Some completedTodo, s') \<Rightarrow>
                     (Inr \<lparr>res_status = 200,
                           res_json = [(''message'', JsString (''Completed '' @ quoted (doc_name completedTodo))),
                                       (''todo'', JsDoc completedTodo)]\<rparr>,
                      s'))))"

definition UncompleteTodo :: "libs \<Rightarrow> todoValidator \<Rightarrow> request \<Rightarrow> model_state \<Rightarrow> (err + response) \<times> model_state" where
  "UncompleteTodo L V req s =
     (let i = todo_id req;
          validation = TodoValidator_Id V i
      in if v_error validation then (Inl (HttpError 400 (v_text validation) None), s)
         else
           (case new_ObjectId L i of
              None \<Rightarrow> (Inl Thrown, s)
            | Some oid \<Rightarrow>
                (case findOneAndUpdate (Fields [(''_id'', Eq (VId oid))]) [(''completed'', VBool False)] s of
                   (None, s') \<Rightarrow> (Inl (HttpError 404 (Some (not_found_message i)) None), s')
                 | (Some uncompletedTodo, s') \<Rightarrow>
                     (Inr \<lparr>res_status = 200,
                           res_json = [(''message'', JsString (''Uncompleted '' @ quoted (doc_name uncompletedTodo))),
                                       (''todo'', JsDoc uncompletedTodo)]\<rparr>,
                      s'))))"

definition UpdateTodoPriority ::
  "libs \<Rightarrow> todoValidator \<Rightarrow> todoPriority \<Rightarrow> request \<Rightarrow> model_state \<Rightarrow> (err + response) \<times> model_state" where
  "UpdateTodoPriority L V P req s =
     (let i = todo_id req;
          validation = TodoValidator_Id V i
      in if v_error validation then (Inl (HttpError 400 (v_text validation) None), s)
         else
           (let priority = req_body req ''priority'' in
            if \<not> truthy priority
            then (Inl (HttpError 400 (Some ''Priority cannot be empty!'') None), s)
            else if \<not> List.member (TodoPriority_values P) priority
            then (Inl (HttpError 400 (Some ''Invalid priority option!'') None), s)
            else
              (case new_ObjectId L i of
                 None \<Rightarrow> (Inl Thrown, s)
               | Some oid \<Rightarrow>
                   (case findOneAndUpdate (Fields [(''_id'', Eq (VId oid))])
                           (cast_fields L [(''priority'', priority)]) s of
                      (None, s') \<Rightarrow> (Inl (HttpError 404 (Some (not_found_message i)) None), s')
                    | (Some foundTodo, s') \<Rightarrow>
                        (Inr \<lparr>res_status = 200,
                              res_json = [(''message'', JsString (''Updated '' @ quoted (doc_name foundTodo) @ '' priority!'')),
                                          (''todo'', JsDoc foundTodo)]\<rparr>,
                         s')))))"

definition UpdateTodoList :: "libs \<Rightarrow> todoValidator \<Rightarrow> request \<Rightarrow> model_state \<Rightarrow> (err + response) \<times> model_state" where
  "UpdateTodoList L V req s =
     (let i = todo_id req;
          validation = TodoValidator_Id V i
      in if v_error validation then (Inl (HttpError 400 (v_text validation) None), s)
         else
           (let listId = req_body req ''listId'';
                listIdValidation = TodoValidator_ListId V listId
            in if v_error listIdValidation
               then (Inl (HttpError 400 (v_text listIdValidation) None), s)
               else
                 (case new_ObjectId L i of
                    None \<Rightarrow> (Inl Thrown, s)
                  | Some oid \<Rightarrow>
                      (case (if listId \<noteq> JNull then map_option VId (new_ObjectId L listId) else Some VNull) of
                         None \<Rightarrow> (Inl Thrown, s)
                       | Some l \<Rightarrow>
                           (case findOneAndUpdate (Fields [(''_id'', Eq (VId oid))]) [(''listId'', l)] s of
                              (None, s') \<Rightarrow> (Inl (HttpError 404 (Some (not_found_message i)) None), s')
                            | (Some foundTodo, s') \<Rightarrow>
                                (Inr \<lparr>res_status = 200,
                                      res_json = [(''message'', JsString (''Updated '' @ quoted (doc_name foundTodo) @ '' list!'')),
                                                  (''todo'', JsDoc foundTodo)]\<rparr>,
                                 s'))))))"

text \<open>\<^verbatim>\<open>DeleteTodo\<close> reads its ID from \<^verbatim>\<open>req.params.todoId || req.query.todoId\<close> only.\<close>

definition DeleteTodo :: "libs \<Rightarrow> todoValidator \<Rightarrow> request \<Rightarrow> model_state \<Rightarrow> (err + response) \<times> model_state" where
  "DeleteTodo L V req s =
     (let i = js_or (req_param req ''todoId'') (req_query req ''todoId'');
          validation = TodoValidator_Id V i
      in if v_error validation then (Inl (HttpError 400 (v_text validation) None), s)
         else
           (case new_ObjectId L i of
              None \<Rightarrow> (Inl Thrown, s)
            | Some oid \<Rightarrow>
                (case findOneAndDelete (Fields [(''_id'', Eq (VId oid))]) s of
                   (None, s') \<Rightarrow> (Inl (HttpError 404 (Some (not_found_message i)) None), s')
                 | (Some deletedTodo, s') \<Rightarrow>
                     (Inr \<lparr>res_status = 200,
                           res_json = [(''message'', JsString (''Deleted '' @ quoted (doc_name deletedTodo))),
                                       (''todo'', JsDoc deletedTodo)]\<rparr>,
                      s'))))"

section \<open>The list controller\<close>

text \<open>\<^verbatim>\<open>GetAllLists\<close>: the options are the literal \<^verbatim>\<open>{limit: 100, skip: 0, sort: {due: -1}}\<close>.\<close>

definition GetAllLists :: "request \<Rightarrow> model_state \<Rightarrow> (err + response) \<times> model_state" where
  "GetAllLists req s =
     (let userId = user req;
          options = \<lparr>opt_limit = 100, opt_skip = 0, opt_sort = [(''due'', - 1)]\<rparr>;
          conditions = Fields [(''userId'', Eq (VId userId))]
      in case countDocuments conditions s of
           (count, s1) \<Rightarrow>
             (case find_docs conditions (Some options) s1 of
                (found, s2) \<Rightarrow>
                  (Inr \<lparr>res_status = 200,
                        res_json = [(''total'', JsNumber count), (''lists'', JsDocs found)]\<rparr>,
                   s2)))"




section \<open>Token issuance\<close>

text \<open>
  The fields of a user that \<^verbatim>\<open>generateUserTokens\<close> reads and writes. \<open>signJWT\<close> (the
  \<^verbatim>\<open>sign\<close> of the token library) is a parameter: payload, secret (absent when the
  environment variable is unset) and lifetime give a token, or \<open>None\<close> when it throws.
\<close>

record iuser =
  firstName :: string
  lastName :: string
  username :: string
  email :: string
  refreshTokens :: "string list"

record process_env =
  JWT_ACCESS_SECRET :: "string option"
  JWT_REFRESH_SECRET :: "string option"

record tokens =
  accessToken :: string
  refreshToken :: string

type_synonym signer = "(string \<times> string) list \<Rightarrow> string option \<Rightarrow> string \<Rightarrow> string option"

text \<open>
  \<^verbatim>\<open>User.findOne({username})\<close> is the first user with that name and
  \<^verbatim>\<open>User.updateOne({username}, {refreshTokens})\<close> rewrites the first such user. A rejected
  promise is \<open>Inl Thrown\<close>; reading \<^verbatim>\<open>refreshTokens\<close> of a user that was not found throws.
\<close>

definition generateUserTokens ::
  "signer \<Rightarrow> process_env \<Rightarrow> iuser \<Rightarrow> iuser list \<Rightarrow> (err + tokens) \<times> iuser list" where
  "generateUserTokens signJWT env userData users =
     (case signJWT [(''firstName'', firstName userData), (''lastName'', lastName userData),
                    (''username'', username userData), (''email'', email userData)]
                   (JWT_ACCESS_SECRET env) ''7d'' of
        None \<Rightarrow> (Inl Thrown, users)
      | Some access \<Rightarrow>
          (case signJWT [(''username'', username userData)] (JWT_REFRESH_SECRET env) ''365d'' of
             None \<Rightarrow> (Inl Thrown, users)
           | Some refresh \<Rightarrow>
               (case List.find (\<lambda>u. username u = username userData) users of
                  None \<Rightarrow> (Inl Thrown, users)
                | Some foundUser \<Rightarrow>
                    (let newRefreshTokens = refreshTokens foundUser @ [refresh] in
                     (Inr \<lparr>accessToken = access, refreshToken = refresh\<rparr>,
                      snd (update_first (\<lambda>u. username u = username userData)
                             (\<lambda>u. u\<lparr>refreshTokens := newRefreshTokens\<rparr>) users))))))"

section \<open>A concrete environment\<close>

text \<open>
  One instance of the parameters, used to run the controllers on concrete requests:
  ObjectIds are the strings of 24 hexadecimal digits, dates in requests are numbers of
  milliseconds, the only due option that parses is spelled out, and the validators
  accept an ID exactly when it is such a string.
\<close>

definition is_hex :: "char \<Rightarrow> bool" where
  "is_hex c = (c \<in> set ''0123456789abcdefABCDEF'')"

definition is_hex24 :: "jsval \<Rightarrow> bool" where
  "is_hex24 v = (case v of JStr s \<Rightarrow> length s = 24 \<and> list_all is_hex s | _ \<Rightarrow> False)"

definition accept :: validation where
  "accept = \<lparr>v_error = False, v_text = None\<rparr>"

definition reject :: "string \<Rightarrow> validation" where
  "reject t = \<lparr>v_error = True, v_text = Some t\<rparr>"

definition lib0 :: libs where
  "lib0 =
     \<lparr>now = 1000 * day_ms + 5000,
      ObjectId_isValid = is_hex24,
      new_ObjectId = (\<lambda>v. case v of JStr h \<Rightarrow> if is_hex24 v then Some (ObjectId h) else None | _ \<Rightarrow> None),
      moment_parse = (\<lambda>v. if v = JStr ''01-02-1970'' then Some 1 else None),
      moment_toDate = (\<lambda>v. case v of JNum n \<Rightarrow> Some n | _ \<Rightarrow> None),
      cast = (\<lambda>k v. case v of
                JUndefined \<Rightarrow> None | JNull \<Rightarrow> Some VNull | JBool b \<Rightarrow> Some (VBool b)
              | JNum n \<Rightarrow> Some (VNum n) | JNaN \<Rightarrow> None | JStr t \<Rightarrow> Some (VStr t))\<rparr>"

definition todoValidator0 :: todoValidator where
  "todoValidator0 =
     \<lparr>TodoValidator_Id = (\<lambda>v. if is_hex24 v then accept else reject ''Invalid todo ID!''),
      TodoValidator_UserId = (\<lambda>v. if is_hex24 v then accept else reject ''Invalid user ID!''),
      TodoValidator_ListId = (\<lambda>v. if v = JNull \<or> v = JUndefined \<or> is_hex24 v then accept else reject ''Invalid list ID!''),
      TodoValidator_Name = (\<lambda>v. case v of JStr n \<Rightarrow> if n = [] then reject ''Name cannot be empty!'' else accept
                                 | _ \<Rightarrow> reject ''Name cannot be empty!''),
      TodoValidator_Notes = (\<lambda>v. accept),
      TodoValidator_URL = (\<lambda>v. accept),
      TodoValidator_Due = (\<lambda>v. case v of JNum n \<Rightarrow> accept | _ \<Rightarrow> reject ''Invalid due date!''),
      TodoValidator_Priority = (\<lambda>v. if List.member [JNum 0, JNum 1, JNum 2, JNum 3] v then accept else reject ''Invalid priority!'')\<rparr>"


definition todoPriority0 :: todoPriority where
  "todoPriority0 = \<lparr>TodoPriority_NONE = JNum 0, TodoPriority_values = [JNum 0, JNum 1, JNum 2, JNum 3]\<rparr>"

definition alice :: objectId where
  "alice = ObjectId ''aaaaaaaaaaaaaaaaaaaaaaaa''"

definition bob :: objectId where
  "bob = ObjectId ''bbbbbbbbbbbbbbbbbbbbbbbb''"

definition todo1 :: doc where
  "todo1 =
     [(''_id'', VId (ObjectId ''111111111111111111111111'')), (''userId'', VId alice),
      (''name'', VStr ''Install MySQL''), (''due'', VDate (3 * day_ms)),
      (''priority'', VNum 0), (''completed'', VBool False)]"

definition todo2 :: doc where
  "todo2 =
     [(''_id'', VId (ObjectId ''222222222222222222222222'')), (''userId'', VId bob),
      (''name'', VStr ''Write tests''), (''due'', VDate (2 * day_ms)),
      (''priority'', VNum 1), (''completed'', VBool True)]"

definition todo_store :: model_state where
  "todo_store = \<lparr>docs = [todo1, todo2], calls = []\<rparr>"

definition list1 :: doc where
  "list1 =
     [(''_id'', VId (ObjectId ''333333333333333333333333'')), (''userId'', VId alice),
      (''name'', VStr ''Work''), (''color'', VStr ''red'')]"

definition list2 :: doc where
  "list2 =
     [(''_id'', VId (ObjectId ''444444444444444444444444'')), (''userId'', VId bob),
      (''name'', VStr ''Home''), (''color'', VStr ''blue'')]"

definition list_store :: model_state where
  "list_store = \<lparr>docs = [list1, list2], calls = []\<rparr>"

definition request0 :: request where
  "request0 = \<lparr>params = [], query = [], body = [], user = alice\<rparr>"

definition req_complete2 :: request where
  "req_complete2 = request0\<lparr>params := [(''todoId'', ''222222222222222222222222'')]\<rparr>"

definition req_uncomplete1 :: request where
  "req_uncomplete1 = request0\<lparr>params := [(''todoId'', ''111111111111111111111111'')]\<rparr>"



definition req_update1_by_bob :: request where
  "req_update1_by_bob =
     \<lparr>params = [(''todoId'', ''111111111111111111111111'')], query = [],
      body = [(''name'', JStr ''Install MySQL''), (''due'', JNum (4 * day_ms)), (''priority'', JNum 0)],
      user = bob\<rparr>"

text \<open>The malformed ID of the repository's tests, with a falsy priority.\<close>

definition req_priority_bad_id :: request where
  "req_priority_bad_id =
     \<lparr>params = [(''todoId'', ''thisiswrongtodoobjectid'')], query = [],
      body = [(''priority'', JNum 0)], user = alice\<rparr>"

definition req_priority_zero :: request where
  "req_priority_zero =
     \<lparr>params = [(''todoId'', ''111111111111111111111111'')], query = [],
      body = [(''priority'', JNum 0)], user = alice\<rparr>"

definition req_priority_absent :: request where
  "req_priority_absent =
     \<lparr>params = [(''todoId'', ''111111111111111111111111'')], query = [], body = [], user = alice\<rparr>"

text \<open>A todo due exactly at the start of day 2, and a store that holds it.\<close>

definition todo3 :: doc where
  "todo3 =
     [(''_id'', VId (ObjectId ''555555555555555555555555'')), (''userId'', VId alice),
      (''name'', VStr ''Midnight''), (''due'', VDate (2 * day_ms)),
      (''priority'', VNum 0), (''completed'', VBool False)]"

definition todo_store3 :: model_state where
  "todo_store3 = \<lparr>docs = [todo1, todo2, todo3], calls = []\<rparr>"

definition req_due_empty :: request where
  "req_due_empty = request0\<lparr>query := [(''due'', '''')]\<rparr>"

definition req_due_day1 :: request where
  "req_due_day1 = request0\<lparr>query := [(''due'', ''01-02-1970'')]\<rparr>"

definition req_due_bad :: request where
  "req_due_bad = request0\<lparr>query := [(''due'', ''tomorrow'')]\<rparr>"

text \<open>Requests for an ID that is well-formed and not stored.\<close>

definition req_missing :: request where
  "req_missing = request0\<lparr>params := [(''todoId'', ''999999999999999999999999'')]\<rparr>"

definition req_update_missing :: request where
  "req_update_missing =
     \<lparr>params = [(''todoId'', ''999999999999999999999999'')], query = [],
      body = [(''name'', JStr ''Install MySQL''), (''due'', JNum (4 * day_ms)), (''priority'', JNum 0)],
      user = alice\<rparr>"

text \<open>
  The not-found message as the specification and the repository's tests word it:
  \<^verbatim>\<open>Cannot <action>, no todo whose ID is <id> found!\<close>.
\<close>

definition spec_not_found_message :: "string \<Rightarrow> string \<Rightarrow> string" where
  "spec_not_found_message action i = ''Cannot '' @ action @ '', no todo whose ID is '' @ i @ '' found!''"

text \<open>A signer, secrets and users for token issuance.\<close>

definition signJWT0 :: signer where
  "signJWT0 payload secret expiresIn =
     (case secret of
        None \<Rightarrow> None
      | Some k \<Rightarrow> Some (k @ ''.'' @ concat (map snd payload) @ ''.'' @ expiresIn))"

definition env0 :: process_env where
  "env0 = \<lparr>JWT_ACCESS_SECRET = Some ''A'', JWT_REFRESH_SECRET = Some ''R''\<rparr>"

definition jane :: iuser where
  "jane = \<lparr>firstName = ''Jane'', lastName = ''Roe'', username = ''janeroe'',
            email = ''jane@example.com'', refreshTokens = [''t0'']\<rparr>"

definition john :: iuser where
  "john = \<lparr>firstName = ''John'', lastName = ''Doe'', username = ''johndoe'',
            email = ''john@example.com'', refreshTokens = [''t1'', ''t2'', ''t1'']\<rparr>"

definition req_complete1 :: request where
  "req_complete1 = request0\<lparr>params := [(''todoId'', ''111111111111111111111111'')]\<rparr>"

section \<open>Properties of the store operations\<close>

lemma update_first_Some:
  "update_first P g ds = (Some d', ds') \<Longrightarrow> \<exists>d \<in> set ds. P d \<and> d' = g d \<and> d' \<in> set ds'"
  by (induction ds arbitrary: ds') (auto split: if_splits prod.splits)

lemma update_first_None:
  "update_first P g ds = (None, ds') \<Longrightarrow> ds' = ds \<and> (\<forall>d \<in> set ds. \<not> P d)"
  by (induction ds arbitrary: ds') (auto split: if_splits prod.splits)

lemma update_first_exists:
  assumes "\<exists>d \<in> set ds. P d"
  shows "\<exists>d' ds'. update_first P g ds = (Some d', ds')"
proof (cases "update_first P g ds")
  case (Pair r ds')
  with assms show ?thesis
    by (cases r) (auto dest: update_first_None)
qed

text \<open>Running an idempotent update that keeps the filter's verdict a second time changes nothing.\<close>

lemma update_first_again:
  assumes "\<And>d. P (g d) = P d" and "\<And>d. g (g d) = g d"
  shows "update_first P g ds = (Some d', ds') \<Longrightarrow> update_first P g ds' = (Some d', ds')"
  using assms by (induction ds arbitrary: ds') (auto split: if_splits prod.splits)

lemma map_of_apply_update:
  "map_of (apply_update upd d) = map_of d ++ map_of (rev upd)"
  unfolding apply_update_def
  by (induction upd arbitrary: d) (auto simp: update_conv' map_add_def fun_eq_iff split: option.splits)

lemma matches_id [simp]:
  "matches (Fields [(''_id'', Eq (VId oid))]) d = (map_of d ''_id'' = Some (VId oid))"
  by simp

lemma apply_update_single [simp]: "apply_update [(k, v)] d = AList.update k v d"
  by (simp add: apply_update_def)

text \<open>
  A successful \<open>update_first\<close> rewrites exactly the first element that satisfies \<open>P\<close>:
  the list keeps its length and every other position.
\<close>

lemma update_first_index:
  "update_first P g ds = (Some t, ds') \<Longrightarrow>
     \<exists>i < length ds. P (ds ! i) \<and> (\<forall>j < i. \<not> P (ds ! j)) \<and> t = g (ds ! i) \<and> ds' = ds[i := g (ds ! i)]"
proof (induction ds arbitrary: ds')
  case Nil
  then show ?case by simp
next
  case (Cons d ds)
  show ?case
  proof (cases "P d")
    case True
    with Cons.prems have "t = g d" and "ds' = g d # ds"
      by auto
    with True show ?thesis
      by (intro exI [of _ 0]) simp
  next
    case False
    with Cons.prems obtain es where u: "update_first P g ds = (Some t, es)" and e: "ds' = d # es"
      by (auto split: prod.splits)
    from Cons.IH [OF u] obtain i where
      i: "i < length ds" "P (ds ! i)" "\<forall>j < i. \<not> P (ds ! j)" "t = g (ds ! i)" "es = ds[i := g (ds ! i)]"
      by blast
    have "\<forall>j < Suc i. \<not> P ((d # ds) ! j)"
    proof (intro allI impI)
      fix j
      assume "j < Suc i"
      with False i(3) show "\<not> P ((d # ds) ! j)"
        by (cases j) simp_all
    qed
    with i e show ?thesis
      by (intro exI [of _ "Suc i"]) simp
  qed
qed

lemma findOneAndUpdate_calls:
  "findOneAndUpdate f upd s = (r, s') \<Longrightarrow> calls s' = calls s @ [FindOneAndUpdate f upd]"
  by (auto simp: findOneAndUpdate_def split: prod.splits)

lemma findOneAndDelete_calls:
  "findOneAndDelete f s = (r, s') \<Longrightarrow> calls s' = calls s @ [FindOneAndDelete f]"
  by (auto simp: findOneAndDelete_def split: prod.splits)

section \<open>Completing and uncompleting\<close>

lemma set_completed_again:
  assumes "findOneAndUpdate (Fields [(''_id'', Eq (VId oid))]) [(''completed'', VBool b)] s = (Some t, s')"
  shows "\<exists>s''. findOneAndUpdate (Fields [(''_id'', Eq (VId oid))]) [(''completed'', VBool b)] s' = (Some t, s'')
            \<and> docs s'' = docs s'"
proof -
  let ?P = "matches (Fields [(''_id'', Eq (VId oid))])"
  let ?g = "apply_update [(''completed'', VBool b)]"
  from assms have u: "update_first ?P ?g (docs s) = (Some t, docs s')"
    by (auto simp: findOneAndUpdate_def split: prod.splits)
  have "update_first ?P ?g (docs s') = (Some t, docs s')"
  proof (rule update_first_again [OF _ _ u])
    show "\<And>d. ?P (?g d) = ?P d" by (simp add: update_conv')
    show "\<And>d. ?g (?g d) = ?g d" by simp
  qed
  then show ?thesis by (simp add: findOneAndUpdate_def)
qed

lemma set_completed_result:
  assumes "findOneAndUpdate (Fields [(''_id'', Eq (VId oid))]) [(''completed'', VBool b)] s = (Some t, s')"
  shows "map_of t ''completed'' = Some (VBool b) \<and> map_of t ''_id'' = Some (VId oid) \<and> t \<in> set (docs s')"
proof -
  from assms have "update_first (matches (Fields [(''_id'', Eq (VId oid))]))
      (apply_update [(''completed'', VBool b)]) (docs s) = (Some t, docs s')"
    by (auto simp: findOneAndUpdate_def split: prod.splits)
  from update_first_Some [OF this] show ?thesis
    by (auto simp: update_conv')
qed

lemma set_completed_found:
  assumes "\<exists>d \<in> set (docs s). map_of d ''_id'' = Some (VId oid)"
  shows "\<exists>t s'. findOneAndUpdate (Fields [(''_id'', Eq (VId oid))]) [(''completed'', VBool b)] s = (Some t, s')"
proof -
  from assms have "\<exists>d \<in> set (docs s). matches (Fields [(''_id'', Eq (VId oid))]) d"
    by simp
  from update_first_exists [OF this]
  obtain t ds where "update_first (matches (Fields [(''_id'', Eq (VId oid))]))
      (apply_update [(''completed'', VBool b)]) (docs s) = (Some t, ds)"
    by blast
  then show ?thesis by (simp add: findOneAndUpdate_def)
qed

lemma CompleteTodo_success:
  assumes "CompleteTodo L V req s = (Inr res, s')"
  shows "\<exists>oid t. \<not> v_error (TodoValidator_Id V (todo_id req)) \<and> new_ObjectId L (todo_id req) = Some oid \<and>
           findOneAndUpdate (Fields [(''_id'', Eq (VId oid))]) [(''completed'', VBool True)] s = (Some t, s') \<and>
           res = \<lparr>res_status = 200,
                  res_json = [(''message'', JsString (''Completed '' @ quoted (doc_name t))), (''todo'', JsDoc t)]\<rparr>"
  using assms
  by (auto simp: CompleteTodo_def Let_def split: if_splits option.splits prod.splits)

lemma UncompleteTodo_success:
  assumes "UncompleteTodo L V req s = (Inr res, s')"
  shows "\<exists>oid t. \<not> v_error (TodoValidator_Id V (todo_id req)) \<and> new_ObjectId L (todo_id req) = Some oid \<and>
           findOneAndUpdate (Fields [(''_id'', Eq (VId oid))]) [(''completed'', VBool False)] s = (Some t, s') \<and>
           res = \<lparr>res_status = 200,
                  res_json = [(''message'', JsString (''Uncompleted '' @ quoted (doc_name t))), (''todo'', JsDoc t)]\<rparr>"
  using assms
  by (auto simp: UncompleteTodo_def Let_def split: if_splits option.splits prod.splits)

lemma CompleteTodo_twice:
  assumes "CompleteTodo L V req s = (Inr res, s')"
  shows "res_status res = 200 \<and>
         (\<exists>t. map_of (res_json res) ''todo'' = Some (JsDoc t) \<and> t \<in> set (docs s') \<and>
              map_of t ''completed'' = Some (VBool True)) \<and>
         (\<exists>s''. CompleteTodo L V req s' = (Inr res, s'') \<and> docs s'' = docs s')"
proof -
  from CompleteTodo_success [OF assms] obtain oid t where
    v: "\<not> v_error (TodoValidator_Id V (todo_id req))" and o: "new_ObjectId L (todo_id req) = Some oid" and
    f: "findOneAndUpdate (Fields [(''_id'', Eq (VId oid))]) [(''completed'', VBool True)] s = (Some t, s')" and
    r: "res = \<lparr>res_status = 200,
               res_json = [(''message'', JsString (''Completed '' @ quoted (doc_name t))), (''todo'', JsDoc t)]\<rparr>"
    by blast
  from set_completed_again [OF f] obtain s'' where
    f': "findOneAndUpdate (Fields [(''_id'', Eq (VId oid))]) [(''completed'', VBool True)] s' = (Some t, s'')"
    and d: "docs s'' = docs s'" by blast
  have "CompleteTodo L V req s' = (Inr res, s'')"
    using v o f' r by (simp add: CompleteTodo_def)
  with set_completed_result [OF f] r d show ?thesis by auto
qed

lemma UncompleteTodo_twice:
  assumes "UncompleteTodo L V req s = (Inr res, s')"
  shows "res_status res = 200 \<and>
         (\<exists>t. map_of (res_json res) ''todo'' = Some (JsDoc t) \<and> t \<in> set (docs s') \<and>
              map_of t ''completed'' = Some (VBool False)) \<and>
         (\<exists>s''. UncompleteTodo L V req s' = (Inr res, s'') \<and> docs s'' = docs s')"
proof -
  from UncompleteTodo_success [OF assms] obtain oid t where
    v: "\<not> v_error (TodoValidator_Id V (todo_id req))" and o: "new_ObjectId L (todo_id req) = Some oid" and
    f: "findOneAndUpdate (Fields [(''_id'', Eq (VId oid))]) [(''completed'', VBool False)] s = (Some t, s')" and
    r: "res = \<lparr>res_status = 200,
               res_json = [(''message'', JsString (''Uncompleted '' @ quoted (doc_name t))), (''todo'', JsDoc t)]\<rparr>"
    by blast
  from set_completed_again [OF f] obtain s'' where
    f': "findOneAndUpdate (Fields [(''_id'', Eq (VId oid))]) [(''completed'', VBool False)] s' = (Some t, s'')"
    and d: "docs s'' = docs s'" by blast
  have "UncompleteTodo L V req s' = (Inr res, s'')"
    using v o f' r by (simp add: UncompleteTodo_def)
  with set_completed_result [OF f] r d show ?thesis by auto
qed

lemma CompleteTodo_found:
  assumes "\<not> v_error (TodoValidator_Id V (todo_id req))" and "new_ObjectId L (todo_id req) = Some oid"
    and "\<exists>d \<in> set (docs s). map_of d ''_id'' = Some (VId oid)"
  shows "\<exists>res s'. CompleteTodo L V req s = (Inr res, s')"
proof -
  from set_completed_found [OF assms(3)] obtain t s' where
    "findOneAndUpdate (Fields [(''_id'', Eq (VId oid))]) [(''completed'', VBool True)] s = (Some t, s')"
    by blast
  with assms(1,2) show ?thesis by (simp add: CompleteTodo_def)
qed

lemma UncompleteTodo_found:
  assumes "\<not> v_error (TodoValidator_Id V (todo_id req))" and "new_ObjectId L (todo_id req) = Some oid"
    and "\<exists>d \<in> set (docs s). map_of d ''_id'' = Some (VId oid)"
  shows "\<exists>res s'. UncompleteTodo L V req s = (Inr res, s')"
proof -
  from set_completed_found [OF assms(3)] obtain t s' where
    "findOneAndUpdate (Fields [(''_id'', Eq (VId oid))]) [(''completed'', VBool False)] s = (Some t, s')"
    by blast
  with assms(1,2) show ?thesis by (simp add: UncompleteTodo_def)
qed

lemma doc_name_set_completed [simp]:
  "doc_name (AList.update ''completed'' v d) = doc_name d"
  by (simp add: doc_name_def update_conv')

lemma set_completed_index:
  assumes "findOneAndUpdate (Fields [(''_id'', Eq (VId oid))]) [(''completed'', VBool b)] s = (Some t, s')"
  shows "\<exists>i < length (docs s).
           map_of (docs s ! i) ''_id'' = Some (VId oid) \<and>
           (\<forall>j < i. map_of (docs s ! j) ''_id'' \<noteq> Some (VId oid)) \<and>
           t = AList.update ''completed'' (VBool b) (docs s ! i) \<and>
           docs s' = (docs s)[i := AList.update ''completed'' (VBool b) (docs s ! i)] \<and>
           calls s' = calls s @
             [FindOneAndUpdate (Fields [(''_id'', Eq (VId oid))]) [(''completed'', VBool b)]]"
proof -
  from assms have u: "update_first (matches (Fields [(''_id'', Eq (VId oid))]))
      (apply_update [(''completed'', VBool b)]) (docs s) = (Some t, docs s')"
    by (auto simp: findOneAndUpdate_def split: prod.splits)
  from update_first_index [OF u] findOneAndUpdate_calls [OF assms]
  show ?thesis by simp
qed

lemma CompleteTodo_effect:
  assumes "CompleteTodo L V req s = (Inr res, s')"
  shows "\<exists>oid i. new_ObjectId L (todo_id req) = Some oid \<and> i < length (docs s) \<and>
           map_of (docs s ! i) ''_id'' = Some (VId oid) \<and>
           (\<forall>j < i. map_of (docs s ! j) ''_id'' \<noteq> Some (VId oid)) \<and>
           docs s' = (docs s)[i := AList.update ''completed'' (VBool True) (docs s ! i)] \<and>
           calls s' = calls s @
             [FindOneAndUpdate (Fields [(''_id'', Eq (VId oid))]) [(''completed'', VBool True)]] \<and>
           res = \<lparr>res_status = 200,
                  res_json =
                    [(''message'', JsString (''Completed '' @ quoted (doc_name (docs s ! i)))),
                     (''todo'', JsDoc (AList.update ''completed'' (VBool True) (docs s ! i)))]\<rparr>"
proof -
  from CompleteTodo_success [OF assms] obtain oid t where
    o: "new_ObjectId L (todo_id req) = Some oid" and
    f: "findOneAndUpdate (Fields [(''_id'', Eq (VId oid))]) [(''completed'', VBool True)] s = (Some t, s')" and
    r: "res = \<lparr>res_status = 200,
               res_json = [(''message'', JsString (''Completed '' @ quoted (doc_name t))), (''todo'', JsDoc t)]\<rparr>"
    by blast
  from set_completed_index [OF f] obtain i where
    "i < length (docs s)" "map_of (docs s ! i) ''_id'' = Some (VId oid)"
    "\<forall>j < i. map_of (docs s ! j) ''_id'' \<noteq> Some (VId oid)"
    "t = AList.update ''completed'' (VBool True) (docs s ! i)"
    "docs s' = (docs s)[i := AList.update ''completed'' (VBool True) (docs s ! i)]"
    "calls s' = calls s @
             [FindOneAndUpdate (Fields [(''_id'', Eq (VId oid))]) [(''completed'', VBool True)]]"
    by blast
  with o r show ?thesis
    by (intro exI [of _ oid] exI [of _ i]) simp
qed

lemma UncompleteTodo_effect:
  assumes "UncompleteTodo L V req s = (Inr res, s')"
  shows "\<exists>oid i. new_ObjectId L (todo_id req) = Some oid \<and> i < length (docs s) \<and>
           map_of (docs s ! i) ''_id'' = Some (VId oid) \<and>
           (\<forall>j < i. map_of (docs s ! j) ''_id'' \<noteq> Some (VId oid)) \<and>
           docs s' = (docs s)[i := AList.update ''completed'' (VBool False) (docs s ! i)] \<and>
           calls s' = calls s @
             [FindOneAndUpdate (Fields [(''_id'', Eq (VId oid))]) [(''completed'', VBool False)]] \<and>
           res = \<lparr>res_status = 200,
                  res_json =
                    [(''message'', JsString (''Uncompleted '' @ quoted (doc_name (docs s ! i)))),
                     (''todo'', JsDoc (AList.update ''completed'' (VBool False) (docs s ! i)))]\<rparr>"
proof -
  from UncompleteTodo_success [OF assms] obtain oid t where
    o: "new_ObjectId L (todo_id req) = Some oid" and
    f: "findOneAndUpdate (Fields [(''_id'', Eq (VId oid))]) [(''completed'', VBool False)] s = (Some t, s')" and
    r: "res = \<lparr>res_status = 200,
               res_json = [(''message'', JsString (''Uncompleted '' @ quoted (doc_name t))), (''todo'', JsDoc t)]\<rparr>"
    by blast
  from set_completed_index [OF f] obtain i where
    "i < length (docs s)" "map_of (docs s ! i) ''_id'' = Some (VId oid)"
    "\<forall>j < i. map_of (docs s ! j) ''_id'' \<noteq> Some (VId oid)"
    "t = AList.update ''completed'' (VBool False) (docs s ! i)"
    "docs s' = (docs s)[i := AList.update ''completed'' (VBool False) (docs s ! i)]"
    "calls s' = calls s @
             [FindOneAndUpdate (Fields [(''_id'', Eq (VId oid))]) [(''completed'', VBool False)]]"
    by blast
  with o r show ?thesis
    by (intro exI [of _ oid] exI [of _ i]) simp
qed

text \<open>
  C5. Whenever the ID passes validation and a todo with that ID is stored, whatever its
  \<^verbatim>\<open>completed\<close> flag, \<^verbatim>\<open>CompleteTodo\<close> (\<^verbatim>\<open>UncompleteTodo\<close>) succeeds. Every success has status
  200 and is the effect of one find-and-modify on the requested \<^verbatim>\<open>_id\<close>: the store afterwards
  is the store before with the first todo of that \<^verbatim>\<open>_id\<close> replaced by itself with
  \<^verbatim>\<open>completed\<close> set to true (false), every other position and field as before, and the
  response returns that todo. Applying the same request again to the resulting store
  succeeds with the same response and leaves the stored documents as they are.
\<close>

theorem complete_uncomplete_idempotent:
  "(\<not> v_error (TodoValidator_Id V (todo_id req)) \<and> new_ObjectId L (todo_id req) = Some oid \<and>
      (\<exists>d \<in> set (docs s). map_of d ''_id'' = Some (VId oid))
      \<longrightarrow> (\<exists>res s'. CompleteTodo L V req s = (Inr res, s')) \<and>
          (\<exists>res s'. UncompleteTodo L V req s = (Inr res, s')))
   \<and> (CompleteTodo L V req s = (Inr res, s') \<longrightarrow>
        res_status res = 200 \<and>
        (\<exists>oid i. new_ObjectId L (todo_id req) = Some oid \<and> i < length (docs s) \<and>
           map_of (docs s ! i) ''_id'' = Some (VId oid) \<and>
           (\<forall>j < i. map_of (docs s ! j) ''_id'' \<noteq> Some (VId oid)) \<and>
           docs s' = (docs s)[i := AList.update ''completed'' (VBool True) (docs s ! i)] \<and>
           calls s' = calls s @
             [FindOneAndUpdate (Fields [(''_id'', Eq (VId oid))]) [(''completed'', VBool True)]] \<and>
           res = \<lparr>res_status = 200,
                  res_json =
                    [(''message'', JsString (''Completed '' @ quoted (doc_name (docs s ! i)))),
                     (''todo'', JsDoc (AList.update ''completed'' (VBool True) (docs s ! i)))]\<rparr> \<and>
           map_of (docs s' ! i) ''_id'' = Some (VId oid) \<and>
           map_of (docs s' ! i) ''completed'' = Some (VBool True)) \<and>
        (\<exists>t. map_of (res_json res) ''todo'' = Some (JsDoc t) \<and> t \<in> set (docs s') \<and>
             map_of t ''completed'' = Some (VBool True)) \<and>
        (\<exists>s''. CompleteTodo L V req s' = (Inr res, s'') \<and> docs s'' = docs s'))
   \<and> (UncompleteTodo L V req s = (Inr res, s') \<longrightarrow>
        res_status res = 200 \<and>
        (\<exists>oid i. new_ObjectId L (todo_id req) = Some oid \<and> i < length (docs s) \<and>
           map_of (docs s ! i) ''_id'' = Some (VId oid) \<and>
           (\<forall>j < i. map_of (docs s ! j) ''_id'' \<noteq> Some (VId oid)) \<and>
           docs s' = (docs s)[i := AList.update ''completed'' (VBool False) (docs s ! i)] \<and>
           calls s' = calls s @
             [FindOneAndUpdate (Fields [(''_id'', Eq (VId oid))]) [(''completed'', VBool False)]] \<and>
           res = \<lparr>res_status = 200,
                  res_json =
                    [(''message'', JsString (''Uncompleted '' @ quoted (doc_name (docs s ! i)))),
                     (''todo'', JsDoc (AList.update ''completed'' (VBool False) (docs s ! i)))]\<rparr> \<and>
           map_of (docs s' ! i) ''_id'' = Some (VId oid) \<and>
           map_of (docs s' ! i) ''completed'' = Some (VBool False)) \<and>
        (\<exists>t. map_of (res_json res) ''todo'' = Some (JsDoc t) \<and> t \<in> set (docs s') \<and>
             map_of t ''completed'' = Some (VBool False)) \<and>
        (\<exists>s''. UncompleteTodo L V req s' = (Inr res, s'') \<and> docs s'' = docs s'))"
proof (intro conjI impI)
  assume a: "\<not> v_error (TodoValidator_Id V (todo_id req)) \<and> new_ObjectId L (todo_id req) = Some oid \<and>
      (\<exists>d \<in> set (docs s). map_of d ''_id'' = Some (VId oid))"
  from a show "\<exists>res s'. CompleteTodo L V req s = (Inr res, s')"
    using CompleteTodo_found [of V req L oid s] by blast
  from a show "\<exists>res s'. UncompleteTodo L V req s = (Inr res, s')"
    using UncompleteTodo_found [of V req L oid s] by blast
next
  assume run: "CompleteTodo L V req s = (Inr res, s')"
  from CompleteTodo_twice [OF run]
  show "res_status res = 200"
    and "\<exists>t. map_of (res_json res) ''todo'' = Some (JsDoc t) \<and> t \<in> set (docs s') \<and>
             map_of t ''completed'' = Some (VBool True)"
    and "\<exists>s''. CompleteTodo L V req s' = (Inr res, s'') \<and> docs s'' = docs s'"
    by blast+
  from CompleteTodo_effect [OF run] obtain oid i where e:
    "new_ObjectId L (todo_id req) = Some oid" "i < length (docs s)"
    "map_of (docs s ! i) ''_id'' = Some (VId oid)"
    "\<forall>j < i. map_of (docs s ! j) ''_id'' \<noteq> Some (VId oid)"
    "docs s' = (docs s)[i := AList.update ''completed'' (VBool True) (docs s ! i)]"
    "calls s' = calls s @
             [FindOneAndUpdate (Fields [(''_id'', Eq (VId oid))]) [(''completed'', VBool True)]]"
    "res = \<lparr>res_status = 200,
                  res_json =
                    [(''message'', JsString (''Completed '' @ quoted (doc_name (docs s ! i)))),
                     (''todo'', JsDoc (AList.update ''completed'' (VBool True) (docs s ! i)))]\<rparr>"
    by blast
  from e(2,3,5) have "map_of (docs s' ! i) ''_id'' = Some (VId oid)"
    and "map_of (docs s' ! i) ''completed'' = Some (VBool True)"
    by (simp_all add: update_conv')
  with e show "\<exists>oid i. new_ObjectId L (todo_id req) = Some oid \<and> i < length (docs s) \<and>
           map_of (docs s ! i) ''_id'' = Some (VId oid) \<and>
           (\<forall>j < i. map_of (docs s ! j) ''_id'' \<noteq> Some (VId oid)) \<and>
           docs s' = (docs s)[i := AList.update ''completed'' (VBool True) (docs s ! i)] \<and>
           calls s' = calls s @
             [FindOneAndUpdate (Fields [(''_id'', Eq (VId oid))]) [(''completed'', VBool True)]] \<and>
           res = \<lparr>res_status = 200,
                  res_json =
                    [(''message'', JsString (''Completed '' @ quoted (doc_name (docs s ! i)))),
                     (''todo'', JsDoc (AList.update ''completed'' (VBool True) (docs s ! i)))]\<rparr> \<and>
           map_of (docs s' ! i) ''_id'' = Some (VId oid) \<and>
           map_of (docs s' ! i) ''completed'' = Some (VBool True)"
    by (intro exI [of _ oid] exI [of _ i]) simp
next
  assume run: "UncompleteTodo L V req s = (Inr res, s')"
  from UncompleteTodo_twice [OF run]
  show "res_status res = 200"
    and "\<exists>t. map_of (res_json res) ''todo'' = Some (JsDoc t) \<and> t \<in> set (docs s') \<and>
             map_of t ''completed'' = Some (VBool False)"
    and "\<exists>s''. UncompleteTodo L V req s' = (Inr res, s'') \<and> docs s'' = docs s'"
    by blast+
  from UncompleteTodo_effect [OF run] obtain oid i where e:
    "new_ObjectId L (todo_id req) = Some oid" "i < length (docs s)"
    "map_of (docs s ! i) ''_id'' = Some (VId oid)"
    "\<forall>j < i. map_of (docs s ! j) ''_id'' \<noteq> Some (VId oid)"
    "docs s' = (docs s)[i := AList.update ''completed'' (VBool False) (docs s ! i)]"
    "calls s' = calls s @
             [FindOneAndUpdate (Fields [(''_id'', Eq (VId oid))]) [(''completed'', VBool False)]]"
    "res = \<lparr>res_status = 200,
                  res_json =
                    [(''message'', JsString (''Uncompleted '' @ quoted (doc_name (docs s ! i)))),
                     (''todo'', JsDoc (AList.update ''completed'' (VBool False) (docs s ! i)))]\<rparr>"
    by blast
  from e(2,3,5) have "map_of (docs s' ! i) ''_id'' = Some (VId oid)"
    and "map_of (docs s' ! i) ''completed'' = Some (VBool False)"
    by (simp_all add: update_conv')
  with e show "\<exists>oid i. new_ObjectId L (todo_id req) = Some oid \<and> i < length (docs s) \<and>
           map_of (docs s ! i) ''_id'' = Some (VId oid) \<and>
           (\<forall>j < i. map_of (docs s ! j) ''_id'' \<noteq> Some (VId oid)) \<and>
           docs s' = (docs s)[i := AList.update ''completed'' (VBool False) (docs s ! i)] \<and>
           calls s' = calls s @
             [FindOneAndUpdate (Fields [(''_id'', Eq (VId oid))]) [(''completed'', VBool False)]] \<and>
           res = \<lparr>res_status = 200,
                  res_json =
                    [(''message'', JsString (''Uncompleted '' @ quoted (doc_name (docs s ! i)))),
                     (''todo'', JsDoc (AList.update ''completed'' (VBool False) (docs s ! i)))]\<rparr> \<and>
           map_of (docs s' ! i) ''_id'' = Some (VId oid) \<and>
           map_of (docs s' ! i) ''completed'' = Some (VBool False)"
    by (intro exI [of _ oid] exI [of _ i]) simp
qed


theorem complete_uncomplete_idempotent_witness:
  "map_of todo2 ''completed'' = Some (VBool True) \<and>
   (\<exists>res s'. CompleteTodo lib0 todoValidator0 req_complete2 todo_store = (Inr res, s') \<and>
      res_status res = 200 \<and>
      (\<exists>t. map_of (res_json res) ''todo'' = Some (JsDoc t) \<and> t \<in> set (docs s') \<and>
           map_of t ''completed'' = Some (VBool True)) \<and>
      (\<exists>s''. CompleteTodo lib0 todoValidator0 req_complete2 s' = (Inr res, s'') \<and> docs s'' = docs s')) \<and>
   map_of todo1 ''completed'' = Some (VBool False) \<and>
   (\<exists>res s'. CompleteTodo lib0 todoValidator0 req_complete1 todo_store = (Inr res, s') \<and>
      docs s' = [AList.update ''completed'' (VBool True) todo1, todo2] \<and>
      map_of (docs s' ! 0) ''completed'' = Some (VBool True) \<and>
      map_of (res_json res) ''todo'' = Some (JsDoc (AList.update ''completed'' (VBool True) todo1)))"
proof -
  have h: "\<not> v_error (TodoValidator_Id todoValidator0 (todo_id req_complete2)) \<and>
      new_ObjectId lib0 (todo_id req_complete2) = Some (ObjectId ''222222222222222222222222'') \<and>
      (\<exists>d \<in> set (docs todo_store). map_of d ''_id'' = Some (VId (ObjectId ''222222222222222222222222'')))"
    by (simp add: todo_id_def js_or_def req_param_def req_complete2_def request0_def lib0_def
        todoValidator0_def is_hex24_def is_hex_def accept_def todo_store_def todo2_def)
  with complete_uncomplete_idempotent [where V = todoValidator0 and L = lib0 and req = req_complete2
      and s = todo_store and oid = "ObjectId ''222222222222222222222222''"]
  obtain res s' where r: "CompleteTodo lib0 todoValidator0 req_complete2 todo_store = (Inr res, s')"
    by blast
  from r complete_uncomplete_idempotent [where V = todoValidator0 and L = lib0 and req = req_complete2
      and s = todo_store and res = res and s' = s']
  have "res_status res = 200 \<and>
      (\<exists>t. map_of (res_json res) ''todo'' = Some (JsDoc t) \<and> t \<in> set (docs s') \<and>
           map_of t ''completed'' = Some (VBool True)) \<and>
      (\<exists>s''. CompleteTodo lib0 todoValidator0 req_complete2 s' = (Inr res, s'') \<and> docs s'' = docs s')"
    by blast
  with r have first: "\<exists>res s'. CompleteTodo lib0 todoValidator0 req_complete2 todo_store = (Inr res, s') \<and>
      res_status res = 200 \<and>
      (\<exists>t. map_of (res_json res) ''todo'' = Some (JsDoc t) \<and> t \<in> set (docs s') \<and>
           map_of t ''completed'' = Some (VBool True)) \<and>
      (\<exists>s''. CompleteTodo lib0 todoValidator0 req_complete2 s' = (Inr res, s'') \<and> docs s'' = docs s')"
    by blast
  have o1: "new_ObjectId lib0 (todo_id req_complete1) = Some (ObjectId ''111111111111111111111111'')"
    and v1: "\<not> v_error (TodoValidator_Id todoValidator0 (todo_id req_complete1))"
    by (simp_all add: todo_id_def js_or_def req_param_def req_complete1_def request0_def lib0_def
        todoValidator0_def is_hex24_def is_hex_def accept_def)
  have d: "docs todo_store = [todo1, todo2]"
    by (simp add: todo_store_def)
  have id1: "map_of todo1 ''_id'' = Some (VId (ObjectId ''111111111111111111111111''))"
    by (simp add: todo1_def)
  from d id1 have "\<exists>d \<in> set (docs todo_store). map_of d ''_id'' = Some (VId (ObjectId ''111111111111111111111111''))"
    by simp
  with v1 o1
    complete_uncomplete_idempotent [where V = todoValidator0 and L = lib0 and req = req_complete1
      and s = todo_store and oid = "ObjectId ''111111111111111111111111''"]
  obtain q t' where r1: "CompleteTodo lib0 todoValidator0 req_complete1 todo_store = (Inr q, t')"
    by blast
  from r1 complete_uncomplete_idempotent [where V = todoValidator0 and L = lib0 and req = req_complete1
      and s = todo_store and res = q and s' = t']
  have "\<exists>oid i. new_ObjectId lib0 (todo_id req_complete1) = Some oid \<and>
      (\<forall>j < i. map_of (docs todo_store ! j) ''_id'' \<noteq> Some (VId oid)) \<and>
      docs t' = (docs todo_store)[i := AList.update ''completed'' (VBool True) (docs todo_store ! i)] \<and>
      q = \<lparr>res_status = 200,
          res_json =
            [(''message'', JsString (''Completed '' @ quoted (doc_name (docs todo_store ! i)))),
             (''todo'', JsDoc (AList.update ''completed'' (VBool True) (docs todo_store ! i)))]\<rparr>"
    by blast
  then obtain oid i where
    o': "new_ObjectId lib0 (todo_id req_complete1) = Some oid" and
    e': "\<forall>j < i. map_of (docs todo_store ! j) ''_id'' \<noteq> Some (VId oid)"
      "docs t' = (docs todo_store)[i := AList.update ''completed'' (VBool True) (docs todo_store ! i)]"
      "q = \<lparr>res_status = 200,
          res_json =
            [(''message'', JsString (''Completed '' @ quoted (doc_name (docs todo_store ! i)))),
             (''todo'', JsDoc (AList.update ''completed'' (VBool True) (docs todo_store ! i)))]\<rparr>"
    by blast
  from o' o1 have "oid = ObjectId ''111111111111111111111111''"
    by simp
  with e' have e:
    "\<forall>j < i. map_of (docs todo_store ! j) ''_id'' \<noteq> Some (VId (ObjectId ''111111111111111111111111''))"
    "docs t' = (docs todo_store)[i := AList.update ''completed'' (VBool True) (docs todo_store ! i)]"
    "q = \<lparr>res_status = 200,
          res_json =
            [(''message'', JsString (''Completed '' @ quoted (doc_name (docs todo_store ! i)))),
             (''todo'', JsDoc (AList.update ''completed'' (VBool True) (docs todo_store ! i)))]\<rparr>"
    by simp_all
  have i0: "i = 0"
  proof (rule ccontr)
    assume "i \<noteq> 0"
    then have "0 < i" by simp
    with e(1) have "map_of (docs todo_store ! 0) ''_id'' \<noteq> Some (VId (ObjectId ''111111111111111111111111''))"
      by blast
    with d id1 show False by simp
  qed
  from e(2,3) i0 d have second: "docs t' = [AList.update ''completed'' (VBool True) todo1, todo2] \<and>
      map_of (docs t' ! 0) ''completed'' = Some (VBool True) \<and>
      map_of (res_json q) ''todo'' = Some (JsDoc (AList.update ''completed'' (VBool True) todo1))"
    by (simp add: update_conv')
  have c: "map_of todo2 ''completed'' = Some (VBool True)" "map_of todo1 ''completed'' = Some (VBool False)"
    by (simp_all add: todo1_def todo2_def)
  from first second r1 c show ?thesis by blast
qed

section \<open>The requesting user and the todo mutations\<close>

lemma todo_id_user [simp]: "todo_id (req\<lparr>user := u\<rparr>) = todo_id req"
  by (simp add: todo_id_def req_param_def req_query_def req_body_def)

lemma req_body_user [simp]: "req_body (req\<lparr>user := u\<rparr>) k = req_body req k"
  by (simp add: req_body_def)

lemma req_param_user [simp]: "req_param (req\<lparr>user := u\<rparr>) k = req_param req k"
  by (simp add: req_param_def)

lemma req_query_user [simp]: "req_query (req\<lparr>user := u\<rparr>) k = req_query req k"
  by (simp add: req_query_def)

lemma CompleteTodo_user: "CompleteTodo L V (req\<lparr>user := u\<rparr>) s = CompleteTodo L V req s"
  by (simp add: CompleteTodo_def Let_def)

lemma UncompleteTodo_user: "UncompleteTodo L V (req\<lparr>user := u\<rparr>) s = UncompleteTodo L V req s"
  by (simp add: UncompleteTodo_def Let_def)

lemma UpdateTodoPriority_user: "UpdateTodoPriority L V P (req\<lparr>user := u\<rparr>) s = UpdateTodoPriority L V P req s"
  by (simp add: UpdateTodoPriority_def Let_def)

lemma UpdateTodoList_user: "UpdateTodoList L V (req\<lparr>user := u\<rparr>) s = UpdateTodoList L V req s"
  by (simp add: UpdateTodoList_def Let_def)

lemma DeleteTodo_user: "DeleteTodo L V (req\<lparr>user := u\<rparr>) s = DeleteTodo L V req s"
  by (simp add: DeleteTodo_def Let_def)

lemma CompleteTodo_filter:
  "CompleteTodo L V req s = (r, s') \<Longrightarrow>
     calls s' = calls s \<or>
     (\<exists>oid upd. new_ObjectId L (todo_id req) = Some oid \<and>
        calls s' = calls s @ [FindOneAndUpdate (Fields [(''_id'', Eq (VId oid))]) upd])"
  by (auto simp: CompleteTodo_def Let_def dest!: findOneAndUpdate_calls
      split: if_splits option.splits prod.splits)

lemma UncompleteTodo_filter:
  "UncompleteTodo L V req s = (r, s') \<Longrightarrow>
     calls s' = calls s \<or>
     (\<exists>oid upd. new_ObjectId L (todo_id req) = Some oid \<and>
        calls s' = calls s @ [FindOneAndUpdate (Fields [(''_id'', Eq (VId oid))]) upd])"
  by (auto simp: UncompleteTodo_def Let_def dest!: findOneAndUpdate_calls
      split: if_splits option.splits prod.splits)

lemma UpdateTodoPriority_filter:
  "UpdateTodoPriority L V P req s = (r, s') \<Longrightarrow>
     calls s' = calls s \<or>
     (\<exists>oid upd. new_ObjectId L (todo_id req) = Some oid \<and>
        calls s' = calls s @ [FindOneAndUpdate (Fields [(''_id'', Eq (VId oid))]) upd])"
  by (auto simp: UpdateTodoPriority_def Let_def dest!: findOneAndUpdate_calls
      split: if_splits option.splits prod.splits)

lemma UpdateTodoList_filter:
  "UpdateTodoList L V req s = (r, s') \<Longrightarrow>
     calls s' = calls s \<or>
     (\<exists>oid upd. new_ObjectId L (todo_id req) = Some oid \<and>
        calls s' = calls s @ [FindOneAndUpdate (Fields [(''_id'', Eq (VId oid))]) upd])"
  by (auto simp: UpdateTodoList_def Let_def dest!: findOneAndUpdate_calls
      split: if_splits option.splits prod.splits)

lemma DeleteTodo_filter:
  "DeleteTodo L V req s = (r, s') \<Longrightarrow>
     calls s' = calls s \<or>
     (\<exists>oid. new_ObjectId L (js_or (req_param req ''todoId'') (req_query req ''todoId'')) = Some oid \<and>
        calls s' = calls s @ [FindOneAndDelete (Fields [(''_id'', Eq (VId oid))])])"
  by (auto simp: DeleteTodo_def Let_def dest!: findOneAndDelete_calls
      split: if_splits option.splits prod.splits)


text \<open>
  C4. \<^verbatim>\<open>CompleteTodo\<close>, \<^verbatim>\<open>UncompleteTodo\<close>, \<^verbatim>\<open>UpdateTodoPriority\<close>, \<^verbatim>\<open>UpdateTodoList\<close> and
  \<^verbatim>\<open>DeleteTodo\<close> give the same result and the same store for any two requesting users;
  and the only call any of them issues to the store is one find-and-modify whose filter
  is \<^verbatim>\<open>{_id: <the requested ID>}\<close>, with no condition on \<^verbatim>\<open>userId\<close>.
\<close>

theorem todo_mutations_ignore_user:
  "CompleteTodo L V (req\<lparr>user := u1\<rparr>) s = CompleteTodo L V (req\<lparr>user := u2\<rparr>) s
   \<and> UncompleteTodo L V (req\<lparr>user := u1\<rparr>) s = UncompleteTodo L V (req\<lparr>user := u2\<rparr>) s
   \<and> UpdateTodoPriority L V P (req\<lparr>user := u1\<rparr>) s = UpdateTodoPriority L V P (req\<lparr>user := u2\<rparr>) s
   \<and> UpdateTodoList L V (req\<lparr>user := u1\<rparr>) s = UpdateTodoList L V (req\<lparr>user := u2\<rparr>) s
   \<and> DeleteTodo L V (req\<lparr>user := u1\<rparr>) s = DeleteTodo L V (req\<lparr>user := u2\<rparr>) s
   \<and> (CompleteTodo L V req s = (r, s') \<longrightarrow>
        calls s' = calls s \<or>
        (\<exists>oid upd. new_ObjectId L (todo_id req) = Some oid \<and>
           calls s' = calls s @ [FindOneAndUpdate (Fields [(''_id'', Eq (VId oid))]) upd]))
   \<and> (UncompleteTodo L V req s = (r, s') \<longrightarrow>
        calls s' = calls s \<or>
        (\<exists>oid upd. new_ObjectId L (todo_id req) = Some oid \<and>
           calls s' = calls s @ [FindOneAndUpdate (Fields [(''_id'', Eq (VId oid))]) upd]))
   \<and> (UpdateTodoPriority L V P req s = (r, s') \<longrightarrow>
        calls s' = calls s \<or>
        (\<exists>oid upd. new_ObjectId L (todo_id req) = Some oid \<and>
           calls s' = calls s @ [FindOneAndUpdate (Fields [(''_id'', Eq (VId oid))]) upd]))
   \<and> (UpdateTodoList L V req s = (r, s') \<longrightarrow>
        calls s' = calls s \<or>
        (\<exists>oid upd. new_ObjectId L (todo_id req) = Some oid \<and>
           calls s' = calls s @ [FindOneAndUpdate (Fields [(''_id'', Eq (VId oid))]) upd]))
   \<and> (DeleteTodo L V req s = (r, s') \<longrightarrow>
        calls s' = calls s \<or>
        (\<exists>oid. new_ObjectId L (js_or (req_param req ''todoId'') (req_query req ''todoId'')) = Some oid \<and>
           calls s' = calls s @ [FindOneAndDelete (Fields [(''_id'', Eq (VId oid))])]))"
proof (intro conjI impI)
  show "CompleteTodo L V (req\<lparr>user := u1\<rparr>) s = CompleteTodo L V (req\<lparr>user := u2\<rparr>) s"
    by (simp only: CompleteTodo_user)
  show "UncompleteTodo L V (req\<lparr>user := u1\<rparr>) s = UncompleteTodo L V (req\<lparr>user := u2\<rparr>) s"
    by (simp only: UncompleteTodo_user)
  show "UpdateTodoPriority L V P (req\<lparr>user := u1\<rparr>) s = UpdateTodoPriority L V P (req\<lparr>user := u2\<rparr>) s"
    by (simp only: UpdateTodoPriority_user)
  show "UpdateTodoList L V (req\<lparr>user := u1\<rparr>) s = UpdateTodoList L V (req\<lparr>user := u2\<rparr>) s"
    by (simp only: UpdateTodoList_user)
  show "DeleteTodo L V (req\<lparr>user := u1\<rparr>) s = DeleteTodo L V (req\<lparr>user := u2\<rparr>) s"
    by (simp only: DeleteTodo_user)
qed (erule CompleteTodo_filter UncompleteTodo_filter UpdateTodoPriority_filter
      UpdateTodoList_filter DeleteTodo_filter)+

theorem todo_mutations_ignore_user_witness:
  "map_of todo2 ''userId'' = Some (VId bob) \<and>
   CompleteTodo lib0 todoValidator0 (req_complete2\<lparr>user := alice\<rparr>) todo_store =
     CompleteTodo lib0 todoValidator0 (req_complete2\<lparr>user := bob\<rparr>) todo_store \<and>
   (\<exists>r s' upd.
      CompleteTodo lib0 todoValidator0 (req_complete2\<lparr>user := alice\<rparr>) todo_store = (r, s') \<and>
      calls s' = calls todo_store @
        [FindOneAndUpdate (Fields [(''_id'', Eq (VId (ObjectId ''222222222222222222222222'')))]) upd])"
proof -
  obtain r s' where rs: "CompleteTodo lib0 todoValidator0 (req_complete2\<lparr>user := alice\<rparr>) todo_store = (r, s')"
    by (cases "CompleteTodo lib0 todoValidator0 (req_complete2\<lparr>user := alice\<rparr>) todo_store")
  have "calls (snd (CompleteTodo lib0 todoValidator0 (req_complete2\<lparr>user := alice\<rparr>) todo_store)) \<noteq>
      calls todo_store"
    by (simp add: CompleteTodo_def todo_id_def js_or_def req_param_def req_complete2_def request0_def
        lib0_def todoValidator0_def is_hex24_def is_hex_def accept_def todo_store_def todo1_def todo2_def
        findOneAndUpdate_def)
  with rs have n: "calls s' \<noteq> calls todo_store"
    by simp
  have i: "new_ObjectId lib0 (todo_id (req_complete2\<lparr>user := alice\<rparr>)) = Some (ObjectId ''222222222222222222222222'')"
    by (simp add: todo_id_def js_or_def req_param_def req_complete2_def request0_def
        lib0_def is_hex24_def is_hex_def)
  note t = todo_mutations_ignore_user [where L = lib0 and V = todoValidator0 and s = todo_store
      and req = "req_complete2\<lparr>user := alice\<rparr>" and r = r and s' = s' and ?u1.0 = alice and ?u2.0 = bob]
  note same = t [THEN conjunct1]
  note only_id = t [THEN conjunct2, THEN conjunct2, THEN conjunct2, THEN conjunct2, THEN conjunct2, THEN conjunct1]
  from only_id rs n i have c3: "\<exists>upd. calls s' = calls todo_store @
        [FindOneAndUpdate (Fields [(''_id'', Eq (VId (ObjectId ''222222222222222222222222'')))]) upd]"
    by simp
  have c1: "map_of todo2 ''userId'' = Some (VId bob)"
    by (simp add: todo2_def)
  from same have c2: "CompleteTodo lib0 todoValidator0 (req_complete2\<lparr>user := alice\<rparr>) todo_store =
     CompleteTodo lib0 todoValidator0 (req_complete2\<lparr>user := bob\<rparr>) todo_store"
    by simp
  from c1 c2 rs c3 show ?thesis by blast
qed

section \<open>The list controller\<close>





lemma cast_fields_keys: "fst ` set (cast_fields L kvs) \<subseteq> fst ` set kvs"
  by (induction kvs) (auto simp: cast_fields_def split: option.splits)

lemma apply_update_other_key:
  assumes "k \<notin> fst ` set upd"
  shows "map_of (apply_update upd d) k = map_of d k"
proof -
  from assms have "map_of (rev upd) k = None"
    by (simp add: map_of_eq_None_iff)
  then show ?thesis
    by (simp add: map_of_apply_update map_add_def)
qed

lemma matches_id_user [simp]:
  "matches (And [Fields [(''_id'', Eq (VId oid))], Fields [(''userId'', Eq (VId u))]]) d =
     (map_of d ''_id'' = Some (VId oid) \<and> map_of d ''userId'' = Some (VId u))"
  by simp

lemma matches_user [simp]:
  "matches (Fields [(''userId'', Eq (VId u))]) d = (map_of d ''userId'' = Some (VId u))"
  by simp

lemma matches_user_fun:
  "matches (Fields [(''userId'', Eq (VId u))]) = (\<lambda>d. map_of d ''userId'' = Some (VId u))"
  by (rule ext) simp

lemma length_insert_doc [simp]: "length (insert_doc spec d ds) = Suc (length ds)"
  by (induction ds) auto

lemma set_insert_doc [simp]: "set (insert_doc spec d ds) = insert d (set ds)"
  by (induction ds) auto

lemma length_sort_docs [simp]: "length (sort_docs spec ds) = length ds"
  by (induction ds) (auto simp: sort_docs_def)

lemma set_sort_docs [simp]: "set (sort_docs spec ds) = set ds"
  by (induction ds) (auto simp: sort_docs_def)

lemma GetAllLists_eq:
  "GetAllLists req s =
     (Inr \<lparr>res_status = 200,
           res_json =
             [(''total'', JsNumber (length (filter (\<lambda>d. map_of d ''userId'' = Some (VId (user req))) (docs s)))),
              (''lists'', JsDocs (take 100 (sort_docs [(''due'', - 1)]
                  (filter (\<lambda>d. map_of d ''userId'' = Some (VId (user req))) (docs s)))))]\<rparr>,
      s\<lparr>calls := calls s @
           [CountDocuments (Fields [(''userId'', Eq (VId (user req)))]),
            Find (Fields [(''userId'', Eq (VId (user req)))])
              (Some \<lparr>opt_limit = 100, opt_skip = 0, opt_sort = [(''due'', - 1)]\<rparr>)]\<rparr>)"
  by (simp add: GetAllLists_def countDocuments_def find_docs_def Let_def matches_user_fun)













text \<open>
  C7. For every request, \<^verbatim>\<open>GetAllLists\<close> issues its \<^verbatim>\<open>find\<close> with limit 100, skip 0 and
  sort \<^verbatim>\<open>{due: -1}\<close>, whatever the request holds, and responds with the first 100 lists
  of the requesting user in that order: never more than 100.
\<close>

theorem get_all_lists_fixed_paging:
  "\<exists>found.
     GetAllLists req s =
       (Inr \<lparr>res_status = 200,
             res_json =
               [(''total'', JsNumber (length (filter (\<lambda>d. map_of d ''userId'' = Some (VId (user req))) (docs s)))),
                (''lists'', JsDocs found)]\<rparr>,
        s\<lparr>calls := calls s @
             [CountDocuments (Fields [(''userId'', Eq (VId (user req)))]),
              Find (Fields [(''userId'', Eq (VId (user req)))])
                (Some \<lparr>opt_limit = 100, opt_skip = 0, opt_sort = [(''due'', - 1)]\<rparr>)]\<rparr>) \<and>
     found = take 100 (sort_docs [(''due'', - 1)]
               (filter (\<lambda>d. map_of d ''userId'' = Some (VId (user req))) (docs s))) \<and>
     length found \<le> 100"
  by (simp add: GetAllLists_eq)

theorem get_all_lists_fixed_paging_witness:
  "\<exists>found.
     GetAllLists (request0\<lparr>query := [(''limit'', ''500''), (''skip'', ''7''), (''sort'', ''name'')]\<rparr>) list_store =
       (Inr \<lparr>res_status = 200, res_json = [(''total'', JsNumber 1), (''lists'', JsDocs found)]\<rparr>,
        list_store\<lparr>calls :=
             [CountDocuments (Fields [(''userId'', Eq (VId alice))]),
              Find (Fields [(''userId'', Eq (VId alice))])
                (Some \<lparr>opt_limit = 100, opt_skip = 0, opt_sort = [(''due'', - 1)]\<rparr>)]\<rparr>) \<and>
     found = [list1] \<and> length found \<le> 100"
  using get_all_lists_fixed_paging
    [of "request0\<lparr>query := [(''limit'', ''500''), (''skip'', ''7''), (''sort'', ''name'')]\<rparr>" list_store]
  by (simp add: request0_def list_store_def list1_def list2_def alice_def bob_def sort_docs_def)

section \<open>Token issuance\<close>

lemma update_first_find:
  assumes "\<And>x. P (g x) = P x"
  shows "List.find P xs = Some x \<Longrightarrow> List.find P (snd (update_first P g xs)) = Some (g x)"
  using assms by (induction xs) (auto simp: split_beta split: if_splits)

lemma length_update_first [simp]: "length (snd (update_first P g xs)) = length xs"
  by (induction xs) (simp_all add: split_beta)

lemma update_first_keeps_others:
  assumes "\<And>x. P (g x) = P x"
  shows "filter (\<lambda>x. \<not> P x) (snd (update_first P g xs)) = filter (\<lambda>x. \<not> P x) xs"
  using assms by (induction xs) (simp_all add: split_beta)

lemma generateUserTokens_success:
  assumes "generateUserTokens signJWT env userData users = (Inr toks, users')"
  shows "\<exists>u. List.find (\<lambda>u. username u = username userData) users = Some u \<and>
           signJWT [(''username'', username userData)] (JWT_REFRESH_SECRET env) ''365d'' = Some (refreshToken toks) \<and>
           users' = snd (update_first (\<lambda>u. username u = username userData)
                      (\<lambda>w. w\<lparr>refreshTokens := refreshTokens u @ [refreshToken toks]\<rparr>) users)"
  using assms
  by (auto simp: generateUserTokens_def Let_def split: option.splits)

text \<open>
  C8. After a successful issuance the user found under the name (the first one) has as
  stored \<^verbatim>\<open>refreshTokens\<close> the previous list with the new refresh token appended: the old
  tokens keep their positions, the length grows by one, and no other user changes. An
  issuance for an existing user succeeds whenever both signatures do.
\<close>

theorem generateUserTokens_appends:
  "(generateUserTokens signJWT env userData users = (Inr toks, users') \<longrightarrow>
      (\<exists>u u'. List.find (\<lambda>u. username u = username userData) users = Some u \<and>
         List.find (\<lambda>u. username u = username userData) users' = Some u' \<and>
         u' = u\<lparr>refreshTokens := refreshTokens u @ [refreshToken toks]\<rparr> \<and>
         refreshTokens u' = refreshTokens u @ [refreshToken toks] \<and>
         take (length (refreshTokens u)) (refreshTokens u') = refreshTokens u \<and>
         length (refreshTokens u') = Suc (length (refreshTokens u)) \<and>
         length users' = length users \<and>
         filter (\<lambda>w. username w \<noteq> username userData) users' =
           filter (\<lambda>w. username w \<noteq> username userData) users))
   \<and> (List.find (\<lambda>u. username u = username userData) users = Some v \<and>
      signJWT [(''firstName'', firstName userData), (''lastName'', lastName userData),
               (''username'', username userData), (''email'', email userData)]
              (JWT_ACCESS_SECRET env) ''7d'' = Some a \<and>
      signJWT [(''username'', username userData)] (JWT_REFRESH_SECRET env) ''365d'' = Some b
      \<longrightarrow> (\<exists>users''. generateUserTokens signJWT env userData users =
              (Inr \<lparr>accessToken = a, refreshToken = b\<rparr>, users'')))"
proof (intro conjI impI)
  assume run: "generateUserTokens signJWT env userData users = (Inr toks, users')"
  from generateUserTokens_success [OF run] obtain u where
    f: "List.find (\<lambda>u. username u = username userData) users = Some u" and
    e: "users' = snd (update_first (\<lambda>u. username u = username userData)
                      (\<lambda>w. w\<lparr>refreshTokens := refreshTokens u @ [refreshToken toks]\<rparr>) users)"
    by blast
  let ?P = "\<lambda>u. username u = username userData"
  let ?g = "\<lambda>w. w\<lparr>refreshTokens := refreshTokens u @ [refreshToken toks]\<rparr>"
  have inv: "\<And>x. ?P (?g x) = ?P x" by simp
  have 1: "List.find ?P users' = Some (?g u)"
    unfolding e by (rule update_first_find [OF inv f])
  have 2: "length users' = length users"
    unfolding e by simp
  have 3: "filter (\<lambda>w. username w \<noteq> username userData) users' =
           filter (\<lambda>w. username w \<noteq> username userData) users"
    unfolding e using update_first_keeps_others [of ?P ?g users] by simp
  from f 1 2 3
  show "\<exists>u u'. List.find (\<lambda>u. username u = username userData) users = Some u \<and>
         List.find (\<lambda>u. username u = username userData) users' = Some u' \<and>
         u' = u\<lparr>refreshTokens := refreshTokens u @ [refreshToken toks]\<rparr> \<and>
         refreshTokens u' = refreshTokens u @ [refreshToken toks] \<and>
         take (length (refreshTokens u)) (refreshTokens u') = refreshTokens u \<and>
         length (refreshTokens u') = Suc (length (refreshTokens u)) \<and>
         length users' = length users \<and>
         filter (\<lambda>w. username w \<noteq> username userData) users' =
           filter (\<lambda>w. username w \<noteq> username userData) users"
    by simp
next
  assume "List.find (\<lambda>u. username u = username userData) users = Some v \<and>
      signJWT [(''firstName'', firstName userData), (''lastName'', lastName userData),
               (''username'', username userData), (''email'', email userData)]
              (JWT_ACCESS_SECRET env) ''7d'' = Some a \<and>
      signJWT [(''username'', username userData)] (JWT_REFRESH_SECRET env) ''365d'' = Some b"
  then show "\<exists>users''. generateUserTokens signJWT env userData users =
              (Inr \<lparr>accessToken = a, refreshToken = b\<rparr>, users'')"
    by (simp add: generateUserTokens_def)
qed


theorem generateUserTokens_appends_witness:
  "\<exists>toks users'.
     generateUserTokens signJWT0 env0 john [jane, john] = (Inr toks, users') \<and>
     refreshToken toks = ''R.johndoe.365d'' \<and>
     List.find (\<lambda>u. username u = ''johndoe'') users' =
       Some (john\<lparr>refreshTokens := [''t1'', ''t2'', ''t1'', ''R.johndoe.365d'']\<rparr>) \<and>
     filter (\<lambda>w. username w \<noteq> ''johndoe'') users' = [jane]"
proof -
  have f: "List.find (\<lambda>u. username u = username john) [jane, john] = Some john"
    by (simp add: jane_def john_def)
  have a: "signJWT0 [(''firstName'', firstName john), (''lastName'', lastName john),
               (''username'', username john), (''email'', email john)]
              (JWT_ACCESS_SECRET env0) ''7d'' = Some ''A.JohnDoejohndoejohn@example.com.7d''"
    by (simp add: signJWT0_def env0_def john_def)
  have b: "signJWT0 [(''username'', username john)] (JWT_REFRESH_SECRET env0) ''365d'' = Some ''R.johndoe.365d''"
    by (simp add: signJWT0_def env0_def john_def)
  note t = generateUserTokens_appends [where signJWT = signJWT0 and env = env0 and userData = john
      and users = "[jane, john]"]
  from t [where v = john and a = "''A.JohnDoejohndoejohn@example.com.7d''" and b = "''R.johndoe.365d''"]
    f a b
  obtain users' where run: "generateUserTokens signJWT0 env0 john [jane, john] =
      (Inr \<lparr>accessToken = ''A.JohnDoejohndoejohn@example.com.7d'', refreshToken = ''R.johndoe.365d''\<rparr>, users')"
    by blast
  from t [where toks = "\<lparr>accessToken = ''A.JohnDoejohndoejohn@example.com.7d'', refreshToken = ''R.johndoe.365d''\<rparr>"
      and users' = users'] run f
  have "List.find (\<lambda>u. username u = username john) users' =
          Some (john\<lparr>refreshTokens := refreshTokens john @ [''R.johndoe.365d'']\<rparr>) \<and>
        filter (\<lambda>w. username w \<noteq> username john) users' =
          filter (\<lambda>w. username w \<noteq> username john) [jane, john]"
    by auto
  then have "List.find (\<lambda>u. username u = ''johndoe'') users' =
       Some (john\<lparr>refreshTokens := [''t1'', ''t2'', ''t1'', ''R.johndoe.365d'']\<rparr>) \<and>
     filter (\<lambda>w. username w \<noteq> ''johndoe'') users' = [jane]"
    by (simp add: john_def jane_def)
  with run show ?thesis by auto
qed

section \<open>Updating a todo\<close>

text \<open>A key that the update document sets to one value only has that value afterwards.\<close>

lemma apply_update_sets:
  assumes "(k, v) \<in> set upd" and "\<And>v'. (k, v') \<in> set upd \<Longrightarrow> v' = v"
  shows "map_of (apply_update upd d) k = Some v"
proof -
  from assms(1) have "k \<in> fst ` set (rev upd)" by force
  then obtain v' where m: "map_of (rev upd) k = Some v'"
    by (cases "map_of (rev upd) k") (auto simp: map_of_eq_None_iff)
  then have "(k, v') \<in> set upd"
    by (auto dest: map_of_SomeD)
  with assms(2) m show ?thesis
    by (simp add: map_of_apply_update map_add_def)
qed

lemma cast_fields_key:
  "(k, v) \<in> set (cast_fields L kvs) \<Longrightarrow> k \<in> fst ` set kvs"
  using cast_fields_keys [of L kvs] by force

lemma UpdateTodo_effect:
  assumes "UpdateTodo L V P req s = (Inr res, s')"
  shows "\<exists>oid uid i due upd.
           new_ObjectId L (todo_id req) = Some oid \<and>
           new_ObjectId L (JStr (toHexString (user req))) = Some uid \<and>
           moment_toDate L (req_body req ''due'') = Some due \<and>
           upd = cast_fields L [(''listId'', req_body req ''listId'')]
               @ [(''userId'', VId uid)]
               @ cast_fields L [(''name'', req_body req ''name''),
                                (''notes'', js_or (req_body req ''notes'') JNull),
                                (''url'', js_or (req_body req ''url'') JNull)]
               @ [(''due'', VDate due)]
               @ cast_fields L [(''priority'', js_or (req_body req ''priority'') (TodoPriority_NONE P))] \<and>
           i < length (docs s) \<and>
           map_of (docs s ! i) ''_id'' = Some (VId oid) \<and>
           (\<forall>j < i. map_of (docs s ! j) ''_id'' \<noteq> Some (VId oid)) \<and>
           docs s' = (docs s)[i := apply_update upd (docs s ! i)] \<and>
           calls s' = calls s @ [FindOneAndUpdate (Fields [(''_id'', Eq (VId oid))]) upd] \<and>
           res = \<lparr>res_status = 200,
                  res_json =
                    [(''message'', JsString (''Updated '' @ quoted (doc_name (apply_update upd (docs s ! i))))),
                     (''todo'', JsDoc (apply_update upd (docs s ! i)))]\<rparr>"
proof -
  from assms obtain oid uid t due where
    o: "new_ObjectId L (todo_id req) = Some oid" and
    u: "new_ObjectId L (JStr (toHexString (user req))) = Some uid" and
    m: "moment_toDate L (req_body req ''due'') = Some due" and
    f: "findOneAndUpdate (Fields [(''_id'', Eq (VId oid))])
          (cast_fields L [(''listId'', req_body req ''listId'')]
               @ [(''userId'', VId uid)]
               @ cast_fields L [(''name'', req_body req ''name''),
                                (''notes'', js_or (req_body req ''notes'') JNull),
                                (''url'', js_or (req_body req ''url'') JNull)]
               @ [(''due'', VDate due)]
               @ cast_fields L [(''priority'', js_or (req_body req ''priority'') (TodoPriority_NONE P))])
          s = (Some t, s')" and
    r: "res = \<lparr>res_status = 200,
               res_json = [(''message'', JsString (''Updated '' @ quoted (doc_name t))), (''todo'', JsDoc t)]\<rparr>"
    by (simp add: UpdateTodo_def Let_def split: if_splits option.splits prod.splits; blast)
  let ?upd = "cast_fields L [(''listId'', req_body req ''listId'')]
               @ [(''userId'', VId uid)]
               @ cast_fields L [(''name'', req_body req ''name''),
                                (''notes'', js_or (req_body req ''notes'') JNull),
                                (''url'', js_or (req_body req ''url'') JNull)]
               @ [(''due'', VDate due)]
               @ cast_fields L [(''priority'', js_or (req_body req ''priority'') (TodoPriority_NONE P))]"
  from f have uf: "update_first (matches (Fields [(''_id'', Eq (VId oid))])) (apply_update ?upd) (docs s)
      = (Some t, docs s')"
    by (auto simp: findOneAndUpdate_def split: prod.splits)
  from update_first_index [OF uf] obtain i where
    i: "i < length (docs s)" "map_of (docs s ! i) ''_id'' = Some (VId oid)"
       "\<forall>j < i. map_of (docs s ! j) ''_id'' \<noteq> Some (VId oid)"
       "t = apply_update ?upd (docs s ! i)"
       "docs s' = (docs s)[i := apply_update ?upd (docs s ! i)]"
    by auto
  from o u m i r findOneAndUpdate_calls [OF f] show ?thesis
    by (intro exI [of _ oid] exI [of _ uid] exI [of _ i] exI [of _ due] exI [of _ ?upd]) simp
qed

text \<open>
  C9. Every successful \<^verbatim>\<open>UpdateTodo\<close> is the effect of one find-and-modify whose filter is
  the \<^verbatim>\<open>_id\<close> condition alone and whose update document sets \<^verbatim>\<open>userId\<close> to the requesting
  user: the store afterwards is the store before with the first todo of the requested
  \<^verbatim>\<open>_id\<close>, whoever owned it, replaced by itself under the update document, every other
  position as before; the replaced todo keeps its \<^verbatim>\<open>_id\<close>, has the requesting user as
  \<^verbatim>\<open>userId\<close> and is the todo the response returns. (The user's ID is rebuilt from its
  hexadecimal string, which is assumed to give it back.)
\<close>

theorem update_todo_takes_ownership:
  "new_ObjectId L (JStr (toHexString (user req))) = Some (user req) \<and>
   UpdateTodo L V P req s = (Inr res, s') \<longrightarrow>
   (\<exists>oid due upd i.
      new_ObjectId L (todo_id req) = Some oid \<and>
      moment_toDate L (req_body req ''due'') = Some due \<and>
      upd = cast_fields L [(''listId'', req_body req ''listId'')]
          @ [(''userId'', VId (user req))]
          @ cast_fields L [(''name'', req_body req ''name''),
                           (''notes'', js_or (req_body req ''notes'') JNull),
                           (''url'', js_or (req_body req ''url'') JNull)]
          @ [(''due'', VDate due)]
          @ cast_fields L [(''priority'', js_or (req_body req ''priority'') (TodoPriority_NONE P))] \<and>
      (''userId'', VId (user req)) \<in> set upd \<and>
      i < length (docs s) \<and>
      map_of (docs s ! i) ''_id'' = Some (VId oid) \<and>
      (\<forall>j < i. map_of (docs s ! j) ''_id'' \<noteq> Some (VId oid)) \<and>
      docs s' = (docs s)[i := apply_update upd (docs s ! i)] \<and>
      calls s' = calls s @ [FindOneAndUpdate (Fields [(''_id'', Eq (VId oid))]) upd] \<and>
      res = \<lparr>res_status = 200,
             res_json =
               [(''message'', JsString (''Updated '' @ quoted (doc_name (apply_update upd (docs s ! i))))),
                (''todo'', JsDoc (apply_update upd (docs s ! i)))]\<rparr> \<and>
      res_status res = 200 \<and>
      map_of (res_json res) ''todo'' = Some (JsDoc (docs s' ! i)) \<and>
      map_of (docs s' ! i) ''_id'' = Some (VId oid) \<and>
      map_of (docs s' ! i) ''userId'' = Some (VId (user req)))"
proof
  assume a: "new_ObjectId L (JStr (toHexString (user req))) = Some (user req) \<and>
   UpdateTodo L V P req s = (Inr res, s')"
  then have run: "UpdateTodo L V P req s = (Inr res, s')" by simp
  from UpdateTodo_effect [OF run] a obtain oid i due upd where
    o: "new_ObjectId L (todo_id req) = Some oid" and
    m: "moment_toDate L (req_body req ''due'') = Some due" and
    u: "upd = cast_fields L [(''listId'', req_body req ''listId'')]
               @ [(''userId'', VId (user req))]
               @ cast_fields L [(''name'', req_body req ''name''),
                                (''notes'', js_or (req_body req ''notes'') JNull),
                                (''url'', js_or (req_body req ''url'') JNull)]
               @ [(''due'', VDate due)]
               @ cast_fields L [(''priority'', js_or (req_body req ''priority'') (TodoPriority_NONE P))]" and
    i: "i < length (docs s)" "map_of (docs s ! i) ''_id'' = Some (VId oid)"
       "\<forall>j < i. map_of (docs s ! j) ''_id'' \<noteq> Some (VId oid)" and
    d: "docs s' = (docs s)[i := apply_update upd (docs s ! i)]" and
    c: "calls s' = calls s @ [FindOneAndUpdate (Fields [(''_id'', Eq (VId oid))]) upd]" and
    r: "res = \<lparr>res_status = 200,
               res_json =
                 [(''message'', JsString (''Updated '' @ quoted (doc_name (apply_update upd (docs s ! i))))),
                  (''todo'', JsDoc (apply_update upd (docs s ! i)))]\<rparr>"
    by auto
  have mem: "(''userId'', VId (user req)) \<in> set upd"
    by (simp add: u)
  have only: "v' = VId (user req)" if "(''userId'', v') \<in> set upd" for v'
    using that unfolding u by (auto dest!: cast_fields_key)
  have noid: "''_id'' \<notin> fst ` set upd"
    unfolding u by (auto dest!: cast_fields_key)
  from i(1) d have nth: "docs s' ! i = apply_update upd (docs s ! i)"
    by simp
  have owner: "map_of (docs s' ! i) ''userId'' = Some (VId (user req))"
    unfolding nth by (rule apply_update_sets [OF mem only])
  have ident: "map_of (docs s' ! i) ''_id'' = Some (VId oid)"
    unfolding nth using i(2) by (simp add: apply_update_other_key [OF noid])
  from r nth have todo: "res_status res = 200" "map_of (res_json res) ''todo'' = Some (JsDoc (docs s' ! i))"
    by simp_all
  from o m u mem i d c r todo ident owner
  show "\<exists>oid due upd i.
      new_ObjectId L (todo_id req) = Some oid \<and>
      moment_toDate L (req_body req ''due'') = Some due \<and>
      upd = cast_fields L [(''listId'', req_body req ''listId'')]
          @ [(''userId'', VId (user req))]
          @ cast_fields L [(''name'', req_body req ''name''),
                           (''notes'', js_or (req_body req ''notes'') JNull),
                           (''url'', js_or (req_body req ''url'') JNull)]
          @ [(''due'', VDate due)]
          @ cast_fields L [(''priority'', js_or (req_body req ''priority'') (TodoPriority_NONE P))] \<and>
      (''userId'', VId (user req)) \<in> set upd \<and>
      i < length (docs s) \<and>
      map_of (docs s ! i) ''_id'' = Some (VId oid) \<and>
      (\<forall>j < i. map_of (docs s ! j) ''_id'' \<noteq> Some (VId oid)) \<and>
      docs s' = (docs s)[i := apply_update upd (docs s ! i)] \<and>
      calls s' = calls s @ [FindOneAndUpdate (Fields [(''_id'', Eq (VId oid))]) upd] \<and>
      res = \<lparr>res_status = 200,
             res_json =
               [(''message'', JsString (''Updated '' @ quoted (doc_name (apply_update upd (docs s ! i))))),
                (''todo'', JsDoc (apply_update upd (docs s ! i)))]\<rparr> \<and>
      res_status res = 200 \<and>
      map_of (res_json res) ''todo'' = Some (JsDoc (docs s' ! i)) \<and>
      map_of (docs s' ! i) ''_id'' = Some (VId oid) \<and>
      map_of (docs s' ! i) ''userId'' = Some (VId (user req))"
    by (intro exI [of _ oid] exI [of _ due] exI [of _ upd] exI [of _ i]) blast
qed

theorem update_todo_takes_ownership_witness:
  "map_of todo1 ''userId'' = Some (VId alice) \<and> alice \<noteq> bob \<and> docs todo_store = [todo1, todo2] \<and>
   (\<exists>res s' t.
      UpdateTodo lib0 todoValidator0 todoPriority0 req_update1_by_bob todo_store = (Inr res, s') \<and>
      docs s' = [t, todo2] \<and>
      map_of (res_json res) ''todo'' = Some (JsDoc t) \<and>
      map_of t ''_id'' = Some (VId (ObjectId ''111111111111111111111111'')) \<and>
      map_of t ''userId'' = Some (VId bob))"
proof -
  have "\<exists>res. fst (UpdateTodo lib0 todoValidator0 todoPriority0 req_update1_by_bob todo_store) = Inr res"
    by (simp add: UpdateTodo_def Let_def todo_id_def js_or_def req_param_def req_query_def req_body_def
        req_update1_by_bob_def lib0_def todoValidator0_def todoPriority0_def all_valid_def
        is_hex24_def is_hex_def accept_def reject_def bob_def alice_def
        todo_store_def todo1_def todo2_def findOneAndUpdate_def cast_fields_def)
  then obtain res s' where
    run: "UpdateTodo lib0 todoValidator0 todoPriority0 req_update1_by_bob todo_store = (Inr res, s')"
    by (cases "UpdateTodo lib0 todoValidator0 todoPriority0 req_update1_by_bob todo_store") auto
  have rt: "new_ObjectId lib0 (JStr (toHexString (user req_update1_by_bob))) = Some (user req_update1_by_bob)"
    by (simp add: req_update1_by_bob_def bob_def lib0_def is_hex24_def is_hex_def)
  have o1: "new_ObjectId lib0 (todo_id req_update1_by_bob) = Some (ObjectId ''111111111111111111111111'')"
    by (simp add: todo_id_def js_or_def req_param_def req_update1_by_bob_def lib0_def is_hex24_def is_hex_def)
  have b: "user req_update1_by_bob = bob"
    by (simp add: req_update1_by_bob_def)
  have d: "docs todo_store = [todo1, todo2]"
    by (simp add: todo_store_def)
  have id1: "map_of todo1 ''_id'' = Some (VId (ObjectId ''111111111111111111111111''))"
    by (simp add: todo1_def)
  from update_todo_takes_ownership [where L = lib0 and V = todoValidator0 and P = todoPriority0
      and req = req_update1_by_bob and s = todo_store and res = res and s' = s'] rt run
  have "\<exists>oid upd i.
      new_ObjectId lib0 (todo_id req_update1_by_bob) = Some oid \<and>
      (\<forall>j < i. map_of (docs todo_store ! j) ''_id'' \<noteq> Some (VId oid)) \<and>
      docs s' = (docs todo_store)[i := apply_update upd (docs todo_store ! i)] \<and>
      map_of (res_json res) ''todo'' = Some (JsDoc (docs s' ! i)) \<and>
      map_of (docs s' ! i) ''_id'' = Some (VId oid) \<and>
      map_of (docs s' ! i) ''userId'' = Some (VId (user req_update1_by_bob))"
    by blast
  then obtain oid upd i where
    o': "new_ObjectId lib0 (todo_id req_update1_by_bob) = Some oid" and
    e': "\<forall>j < i. map_of (docs todo_store ! j) ''_id'' \<noteq> Some (VId oid)"
      "docs s' = (docs todo_store)[i := apply_update upd (docs todo_store ! i)]"
      "map_of (res_json res) ''todo'' = Some (JsDoc (docs s' ! i))"
      "map_of (docs s' ! i) ''_id'' = Some (VId oid)"
      "map_of (docs s' ! i) ''userId'' = Some (VId (user req_update1_by_bob))"
    by blast
  from o' o1 have oid: "oid = ObjectId ''111111111111111111111111''"
    by simp
  have i0: "i = 0"
  proof (rule ccontr)
    assume "i \<noteq> 0"
    then have "0 < i" by simp
    with e'(1) oid have "map_of (docs todo_store ! 0) ''_id'' \<noteq> Some (VId (ObjectId ''111111111111111111111111''))"
      by blast
    with d id1 show False by simp
  qed
  from e' i0 d oid b have "docs s' = [docs s' ! 0, todo2] \<and>
      map_of (res_json res) ''todo'' = Some (JsDoc (docs s' ! 0)) \<and>
      map_of (docs s' ! 0) ''_id'' = Some (VId (ObjectId ''111111111111111111111111'')) \<and>
      map_of (docs s' ! 0) ''userId'' = Some (VId bob)"
    by simp
  moreover have "map_of todo1 ''userId'' = Some (VId alice)" and "alice \<noteq> bob"
    by (simp_all add: todo1_def alice_def bob_def)
  ultimately show ?thesis using run d by blast
qed

section \<open>Updating a priority\<close>

lemma UpdateTodoPriority_falsy:
  assumes "\<not> truthy (req_body req ''priority'')"
  shows "UpdateTodoPriority L V P req s =
           (if v_error (TodoValidator_Id V (todo_id req))
            then (Inl (HttpError 400 (v_text (TodoValidator_Id V (todo_id req))) None), s)
            else (Inl (HttpError 400 (Some ''Priority cannot be empty!'') None), s))"
  using assms by (simp add: UpdateTodoPriority_def Let_def)

lemma UpdateTodoPriority_store:
  assumes "UpdateTodoPriority L V P req s = (r, s')" and "calls s' \<noteq> calls s"
  shows "truthy (req_body req ''priority'') \<and>
         List.member (TodoPriority_values P) (req_body req ''priority'') \<and>
         (\<exists>oid. calls s' = calls s @
            [FindOneAndUpdate (Fields [(''_id'', Eq (VId oid))])
               (cast_fields L [(''priority'', req_body req ''priority'')])])"
  using assms
  by (auto simp: UpdateTodoPriority_def Let_def dest!: findOneAndUpdate_calls
      split: if_splits option.splits prod.splits)

lemma UpdateTodoPriority_Inr:
  assumes "UpdateTodoPriority L V P req s = (Inr res, s')"
  shows "truthy (req_body req ''priority'')"
  using assms
  by (auto simp: UpdateTodoPriority_def Let_def split: if_splits option.splits prod.splits)

text \<open>
  C10 (amended). For every \<^verbatim>\<open>UpdateTodoPriority\<close> request whose body \<^verbatim>\<open>priority\<close> is falsy:
  if the ID passes validation, the request fails with status 400 and message
  \<^verbatim>\<open>Priority cannot be empty!\<close>, and if not, with status 400 and the ID validator's text;
  either way the store is not accessed, whatever the priority enum contains. So a
  request that reaches the store or succeeds has a truthy priority that is a member of
  the enum, and two requests with the same ID and falsy priorities (absent or explicit)
  get the same result.
\<close>

theorem update_priority_rejects_falsy:
  "(\<not> truthy (req_body req ''priority'') \<longrightarrow>
      UpdateTodoPriority L V P req s =
        (if v_error (TodoValidator_Id V (todo_id req))
         then (Inl (HttpError 400 (v_text (TodoValidator_Id V (todo_id req))) None), s)
         else (Inl (HttpError 400 (Some ''Priority cannot be empty!'') None), s)))
   \<and> (UpdateTodoPriority L V P req s = (r, s') \<and> calls s' \<noteq> calls s \<longrightarrow>
        truthy (req_body req ''priority'') \<and>
        List.member (TodoPriority_values P) (req_body req ''priority'') \<and>
        (\<exists>oid. calls s' = calls s @
           [FindOneAndUpdate (Fields [(''_id'', Eq (VId oid))])
              (cast_fields L [(''priority'', req_body req ''priority'')])]))
   \<and> (UpdateTodoPriority L V P req s = (Inr res, s') \<longrightarrow> truthy (req_body req ''priority''))
   \<and> (\<not> truthy (req_body req ''priority'') \<and> \<not> truthy (req_body req2 ''priority'') \<and>
      todo_id req2 = todo_id req \<longrightarrow>
        UpdateTodoPriority L V P req2 s = UpdateTodoPriority L V P req s)"
proof (intro conjI impI)
  assume "\<not> truthy (req_body req ''priority'')"
  then show "UpdateTodoPriority L V P req s =
        (if v_error (TodoValidator_Id V (todo_id req))
         then (Inl (HttpError 400 (v_text (TodoValidator_Id V (todo_id req))) None), s)
         else (Inl (HttpError 400 (Some ''Priority cannot be empty!'') None), s))"
    by (rule UpdateTodoPriority_falsy)
next
  assume a: "UpdateTodoPriority L V P req s = (r, s') \<and> calls s' \<noteq> calls s"
  then have "UpdateTodoPriority L V P req s = (r, s')" and "calls s' \<noteq> calls s"
    by simp_all
  from UpdateTodoPriority_store [OF this]
  show "truthy (req_body req ''priority'')"
    and "List.member (TodoPriority_values P) (req_body req ''priority'')"
    and "\<exists>oid. calls s' = calls s @
           [FindOneAndUpdate (Fields [(''_id'', Eq (VId oid))])
              (cast_fields L [(''priority'', req_body req ''priority'')])]"
    by blast+
next
  assume "UpdateTodoPriority L V P req s = (Inr res, s')"
  then show "truthy (req_body req ''priority'')"
    by (rule UpdateTodoPriority_Inr)
next
  assume "\<not> truthy (req_body req ''priority'') \<and> \<not> truthy (req_body req2 ''priority'') \<and>
      todo_id req2 = todo_id req"
  then show "UpdateTodoPriority L V P req2 s = UpdateTodoPriority L V P req s"
    by (simp add: UpdateTodoPriority_falsy)
qed

theorem update_priority_rejects_falsy_witness:
  "List.member (TodoPriority_values todoPriority0) (JNum 0) \<and>
   UpdateTodoPriority lib0 todoValidator0 todoPriority0 req_priority_zero todo_store =
     (Inl (HttpError 400 (Some ''Priority cannot be empty!'') None), todo_store) \<and>
   UpdateTodoPriority lib0 todoValidator0 todoPriority0 req_priority_absent todo_store =
     UpdateTodoPriority lib0 todoValidator0 todoPriority0 req_priority_zero todo_store"
proof -
  have f: "\<not> truthy (req_body req_priority_zero ''priority'')"
    and g: "\<not> truthy (req_body req_priority_absent ''priority'')"
    and i: "todo_id req_priority_absent = todo_id req_priority_zero"
    and v: "\<not> v_error (TodoValidator_Id todoValidator0 (todo_id req_priority_zero))"
    by (simp_all add: req_body_def req_param_def req_query_def todo_id_def js_or_def
        req_priority_zero_def req_priority_absent_def
        todoValidator0_def is_hex24_def is_hex_def accept_def)
  note t = update_priority_rejects_falsy [where L = lib0 and V = todoValidator0 and P = todoPriority0
      and req = req_priority_zero and s = todo_store and ?req2.0 = req_priority_absent]
  from t f v have 1: "UpdateTodoPriority lib0 todoValidator0 todoPriority0 req_priority_zero todo_store =
     (Inl (HttpError 400 (Some ''Priority cannot be empty!'') None), todo_store)"
    by simp
  from t f g i have 2: "UpdateTodoPriority lib0 todoValidator0 todoPriority0 req_priority_absent todo_store =
     UpdateTodoPriority lib0 todoValidator0 todoPriority0 req_priority_zero todo_store"
    by blast
  have 3: "List.member (TodoPriority_values todoPriority0) (JNum 0)"
    by (simp add: todoPriority0_def)
  from 1 2 3 show ?thesis by blast
qed

text \<open>
  C10 as stated fails when the ID does not pass validation: with the malformed ID of
  the repository's tests and priority 0, the message is the ID validator's text.
\<close>

theorem update_priority_bad_id_counterexample:
  "\<not> truthy (req_body req_priority_bad_id ''priority'') \<and>
   UpdateTodoPriority lib0 todoValidator0 todoPriority0 req_priority_bad_id todo_store =
     (Inl (HttpError 400 (Some ''Invalid todo ID!'') None), todo_store) \<and>
   UpdateTodoPriority lib0 todoValidator0 todoPriority0 req_priority_bad_id todo_store \<noteq>
     (Inl (HttpError 400 (Some ''Priority cannot be empty!'') None), todo_store)"
  by (simp add: UpdateTodoPriority_def Let_def req_body_def req_param_def req_query_def todo_id_def
      js_or_def req_priority_bad_id_def todoValidator0_def is_hex24_def is_hex_def reject_def)

section \<open>Listing todos\<close>

lemma cond_holds_date_range:
  "cond_holds (GteLte (VDate a) (VDate b)) x = (\<exists>u. x = Some (VDate u) \<and> a \<le> u \<and> u \<le> b)"
proof (cases x)
  case None
  then show ?thesis by simp
next
  case (Some v)
  then show ?thesis by (cases v) (auto simp: val_less_def)
qed

lemma fields_hold_map_of:
  "fields_hold c d \<Longrightarrow> map_of c k = Some cnd \<Longrightarrow> cond_holds cnd (map_of d k)"
  by (induction c) (auto split: if_splits)

lemma moment_set_hms0_day [simp]: "moment_set_hms0 (day * day_ms) = day * day_ms"
proof -
  have "day * day_ms = 1000 * (day * 86400)"
    by (simp add: day_ms_def)
  then have "day * day_ms mod 1000 = 1000 * (day * 86400) mod 1000"
    by (simp only:)
  also have "\<dots> = 0"
    by (rule mod_mult_self1_is_0)
  finally show ?thesis
    by (simp add: moment_set_hms0_def)
qed

lemma moment_add_days_1 [simp]: "moment_add_days 1 (day * day_ms) = (day + 1) * day_ms"
  by (simp add: moment_add_days_def algebra_simps)

lemma GetAllTodos_no_query:
  assumes "query req = []"
  shows "GetAllTodos L req s =
     (Inr \<lparr>res_status = 200,
           res_json =
             [(''total'', JsNumber (length (filter (\<lambda>d. map_of d ''completed'' = Some (VBool False)) (docs s)))),
              (''todos'', JsDocs (filter (\<lambda>d. map_of d ''completed'' = Some (VBool False)) (docs s)))]\<rparr>,
      s\<lparr>calls := calls s @
           [Find (Fields [(''completed'', Eq (VBool False))]) None,
            CountDocuments (Fields [(''completed'', Eq (VBool False))])]\<rparr>)"
proof -
  have m: "matches (Fields [(''completed'', Eq (VBool False))]) =
      (\<lambda>d. map_of d ''completed'' = Some (VBool False))"
    by (rule ext) simp
  from assms show ?thesis
    by (simp add: GetAllTodos_def Let_def req_query_def js_or_def listId_option_def due_option_def
        find_docs_def countDocuments_def m)
qed

text \<open>
  C1 (amended). For every \<^verbatim>\<open>GetAllTodos\<close> request with no query parameters, the filter
  passed to the store is exactly \<^verbatim>\<open>{completed: false}\<close>, with no condition on \<^verbatim>\<open>due\<close>, and
  the response holds the stored todos that are not completed, whatever their due date.
\<close>

theorem get_all_todos_default_filter:
  "query req = [] \<longrightarrow>
   GetAllTodos L req s =
     (Inr \<lparr>res_status = 200,
           res_json =
             [(''total'', JsNumber (length (filter (\<lambda>d. map_of d ''completed'' = Some (VBool False)) (docs s)))),
              (''todos'', JsDocs (filter (\<lambda>d. map_of d ''completed'' = Some (VBool False)) (docs s)))]\<rparr>,
      s\<lparr>calls := calls s @
           [Find (Fields [(''completed'', Eq (VBool False))]) None,
            CountDocuments (Fields [(''completed'', Eq (VBool False))])]\<rparr>)"
  by (intro impI) (rule GetAllTodos_no_query)

theorem get_all_todos_default_filter_witness:
  "query request0 = [] \<and>
   GetAllTodos lib0 request0 todo_store3 =
     (Inr \<lparr>res_status = 200,
           res_json = [(''total'', JsNumber 2), (''todos'', JsDocs [todo1, todo3])]\<rparr>,
      todo_store3\<lparr>calls :=
           [Find (Fields [(''completed'', Eq (VBool False))]) None,
            CountDocuments (Fields [(''completed'', Eq (VBool False))])]\<rparr>)"
proof -
  have q: "query request0 = []"
    by (simp add: request0_def)
  have f: "filter (\<lambda>d. map_of d ''completed'' = Some (VBool False)) (docs todo_store3) = [todo1, todo3]"
    by (simp add: todo_store3_def todo1_def todo2_def todo3_def)
  have c: "calls todo_store3 = []"
    by (simp add: todo_store3_def)
  from get_all_todos_default_filter [of request0 lib0 todo_store3] q
  show ?thesis by (simp add: f c)
qed

text \<open>
  C1 as stated fails: with no query parameters the filter has no \<^verbatim>\<open>due\<close> condition, and
  a todo due on day 3 is returned although the request is made on day 1000.
\<close>

theorem get_all_todos_default_counterexample:
  "query request0 = [] \<and>
   GetAllTodos lib0 request0 todo_store =
     (Inr \<lparr>res_status = 200, res_json = [(''total'', JsNumber 1), (''todos'', JsDocs [todo1])]\<rparr>,
      todo_store\<lparr>calls :=
           [Find (Fields [(''completed'', Eq (VBool False))]) None,
            CountDocuments (Fields [(''completed'', Eq (VBool False))])]\<rparr>) \<and>
   map_of [(''completed'', Eq (VBool False))] ''due'' = None \<and>
   map_of todo1 ''due'' = Some (VDate (3 * day_ms)) \<and>
   now lib0 = 1000 * day_ms + 5000"
  by (simp add: GetAllTodos_def Let_def req_query_def js_or_def listId_option_def due_option_def
      find_docs_def countDocuments_def request0_def lib0_def todo_store_def todo1_def todo2_def)


lemma GetAllTodos_due_parsed:
  assumes lib: "\<And>v. ObjectId_isValid L v \<Longrightarrow> new_ObjectId L v \<noteq> None"
    and due: "map_of (query req) ''due'' = Some d" "d \<noteq> []" "d \<noteq> ''all''"
    and parse: "moment_parse L (JStr d) = Some day"
  shows "if truthy (req_query req ''listId'') \<and> \<not> ObjectId_isValid L (req_query req ''listId'')
         then GetAllTodos L req s = (Inl (HttpError 400 (Some ''Invalid list ID!'') None), s)
         else \<exists>c found.
            GetAllTodos L req s =
              (Inr \<lparr>res_status = 200,
                    res_json = [(''total'', JsNumber (length found)), (''todos'', JsDocs found)]\<rparr>,
               s\<lparr>calls := calls s @ [Find (Fields c) None, CountDocuments (Fields c)]\<rparr>) \<and>
            found = filter (matches (Fields c)) (docs s) \<and>
            (if truthy (req_query req ''listId'')
             then \<exists>oid. new_ObjectId L (req_query req ''listId'') = Some oid \<and>
                    c = [(''completed'', Eq (VBool False)),
                         (''due'', GteLte (VDate (day * day_ms)) (VDate ((day + 1) * day_ms))),
                         (''listId'', Eq (VId oid))]
             else c = [(''completed'', Eq (VBool False)),
                       (''due'', GteLte (VDate (day * day_ms)) (VDate ((day + 1) * day_ms)))])"
proof -
  from due have d: "js_or (req_query req ''due'') (JStr ''all'') = JStr d"
    by (simp add: req_query_def js_or_def)
  show ?thesis
  proof (cases "truthy (req_query req ''listId'')")
    case False
    with d due parse show ?thesis
      by (simp add: GetAllTodos_def Let_def js_or_def listId_option_def due_option_def
          find_docs_def countDocuments_def)
  next
    case True
    then have l: "js_or (req_query req ''listId'') JNull = req_query req ''listId''"
      by (simp add: js_or_def)
    show ?thesis
    proof (cases "ObjectId_isValid L (req_query req ''listId'')")
      case False
      with True l show ?thesis
        by (simp add: GetAllTodos_def Let_def listId_option_def)
    next
      case valid: True
      with lib obtain oid where "new_ObjectId L (req_query req ''listId'') = Some oid"
        by fastforce
      with True valid l d due parse show ?thesis
        by (simp add: GetAllTodos_def Let_def listId_option_def due_option_def
            find_docs_def countDocuments_def)
    qed
  qed
qed

lemma GetAllTodos_due_unparsed:
  assumes lib: "\<And>v. ObjectId_isValid L v \<Longrightarrow> new_ObjectId L v \<noteq> None"
    and due: "map_of (query req) ''due'' = Some d" "d \<noteq> []" "d \<noteq> ''all''"
    and parse: "moment_parse L (JStr d) = None"
  shows "GetAllTodos L req s =
           (Inl (HttpError 400
              (Some (if truthy (req_query req ''listId'') \<and> \<not> ObjectId_isValid L (req_query req ''listId'')
                     then ''Invalid list ID!'' else ''Invalid due option!'')) None), s)"
proof -
  from due have d: "js_or (req_query req ''due'') (JStr ''all'') = JStr d"
    by (simp add: req_query_def js_or_def)
  show ?thesis
  proof (cases "truthy (req_query req ''listId'')")
    case False
    with d due parse show ?thesis
      by (simp add: GetAllTodos_def Let_def js_or_def listId_option_def due_option_def)
  next
    case True
    then have l: "js_or (req_query req ''listId'') JNull = req_query req ''listId''"
      by (simp add: js_or_def)
    show ?thesis
    proof (cases "ObjectId_isValid L (req_query req ''listId'')")
      case False
      with True l show ?thesis
        by (simp add: GetAllTodos_def Let_def listId_option_def)
    next
      case valid: True
      with lib obtain oid where "new_ObjectId L (req_query req ''listId'') = Some oid"
        by fastforce
      with True valid l d due parse show ?thesis
        by (simp add: GetAllTodos_def Let_def listId_option_def due_option_def)
    qed
  qed
qed


lemma GetAllTodos_due_results:
  assumes lib: "\<And>v. ObjectId_isValid L v \<Longrightarrow> new_ObjectId L v \<noteq> None"
    and due: "map_of (query req) ''due'' = Some d" "d \<noteq> []" "d \<noteq> ''all''"
    and parse: "moment_parse L (JStr d) = Some day"
    and ok: "\<not> (truthy (req_query req ''listId'') \<and> \<not> ObjectId_isValid L (req_query req ''listId''))"
  shows "\<exists>c found.
            GetAllTodos L req s =
              (Inr \<lparr>res_status = 200,
                    res_json = [(''total'', JsNumber (length found)), (''todos'', JsDocs found)]\<rparr>,
               s\<lparr>calls := calls s @ [Find (Fields c) None, CountDocuments (Fields c)]\<rparr>) \<and>
            found = filter (matches (Fields c)) (docs s) \<and>
            map_of c ''completed'' = Some (Eq (VBool False)) \<and>
            map_of c ''due'' = Some (GteLte (VDate (day * day_ms)) (VDate ((day + 1) * day_ms))) \<and>
            (\<forall>t \<in> set found.
               map_of t ''completed'' = Some (VBool False) \<and>
               (\<exists>u. map_of t ''due'' = Some (VDate u) \<and> day * day_ms \<le> u \<and> u \<le> (day + 1) * day_ms))"
proof -
  from GetAllTodos_due_parsed [of L req d day s, OF lib due parse] ok
  obtain c found where
    run: "GetAllTodos L req s =
              (Inr \<lparr>res_status = 200,
                    res_json = [(''total'', JsNumber (length found)), (''todos'', JsDocs found)]\<rparr>,
               s\<lparr>calls := calls s @ [Find (Fields c) None, CountDocuments (Fields c)]\<rparr>)" and
    found: "found = filter (matches (Fields c)) (docs s)" and
    c: "if truthy (req_query req ''listId'')
        then \<exists>oid. new_ObjectId L (req_query req ''listId'') = Some oid \<and>
               c = [(''completed'', Eq (VBool False)),
                    (''due'', GteLte (VDate (day * day_ms)) (VDate ((day + 1) * day_ms))),
                    (''listId'', Eq (VId oid))]
        else c = [(''completed'', Eq (VBool False)),
                  (''due'', GteLte (VDate (day * day_ms)) (VDate ((day + 1) * day_ms)))]"
    by (auto split: if_splits)
  from c have m1: "map_of c ''completed'' = Some (Eq (VBool False))"
    and m2: "map_of c ''due'' = Some (GteLte (VDate (day * day_ms)) (VDate ((day + 1) * day_ms)))"
    by (auto split: if_splits)
  have "map_of t ''completed'' = Some (VBool False) \<and>
        (\<exists>u. map_of t ''due'' = Some (VDate u) \<and> day * day_ms \<le> u \<and> u \<le> (day + 1) * day_ms)"
    if "t \<in> set found" for t
  proof -
    from that found have h: "fields_hold c t" by simp
    have "cond_holds (GteLte (VDate (day * day_ms)) (VDate ((day + 1) * day_ms))) (map_of t ''due'')"
      by (rule fields_hold_map_of [OF h m2])
    then have "\<exists>u. map_of t ''due'' = Some (VDate u) \<and> day * day_ms \<le> u \<and> u \<le> (day + 1) * day_ms"
      by (simp only: cond_holds_date_range)
    moreover from fields_hold_map_of [OF h m1] have "map_of t ''completed'' = Some (VBool False)"
      by simp
    ultimately show ?thesis by simp
  qed
  with run found m1 m2 show ?thesis by blast
qed

text \<open>
  C3 (amended). For every \<^verbatim>\<open>GetAllTodos\<close> request whose \<^verbatim>\<open>due\<close> query parameter is a
  non-empty string other than \<^verbatim>\<open>all\<close>: if it does not parse, the request fails with
  status 400; if it parses, the request fails with status 400 on a \<^verbatim>\<open>listId\<close> that is
  not a valid ID, and otherwise succeeds with a filter that keeps \<^verbatim>\<open>completed: false\<close>
  and restricts \<^verbatim>\<open>due\<close> to the dates from the start of that day to the start of the next
  day: every returned todo is not completed and due within these bounds, and every due
  date from the start of the day (included) to before the start of the next satisfies
  the condition. An empty \<^verbatim>\<open>due\<close> parameter is treated like an absent one. (The library
  is assumed to construct every ID it declares valid.)
\<close>

theorem get_all_todos_due_option:
  "((\<forall>v. ObjectId_isValid L v \<longrightarrow> new_ObjectId L v \<noteq> None) \<and>
    map_of (query req) ''due'' = Some d \<and> d \<noteq> [] \<and> d \<noteq> ''all'' \<longrightarrow>
    (case moment_parse L (JStr d) of
       None \<Rightarrow>
         GetAllTodos L req s =
           (Inl (HttpError 400
              (Some (if truthy (req_query req ''listId'') \<and> \<not> ObjectId_isValid L (req_query req ''listId'')
                     then ''Invalid list ID!'' else ''Invalid due option!'')) None), s)
     | Some day \<Rightarrow>
         (if truthy (req_query req ''listId'') \<and> \<not> ObjectId_isValid L (req_query req ''listId'')
          then GetAllTodos L req s = (Inl (HttpError 400 (Some ''Invalid list ID!'') None), s)
          else \<exists>c found.
            GetAllTodos L req s =
              (Inr \<lparr>res_status = 200,
                    res_json = [(''total'', JsNumber (length found)), (''todos'', JsDocs found)]\<rparr>,
               s\<lparr>calls := calls s @ [Find (Fields c) None, CountDocuments (Fields c)]\<rparr>) \<and>
            found = filter (matches (Fields c)) (docs s) \<and>
            map_of c ''completed'' = Some (Eq (VBool False)) \<and>
            map_of c ''due'' = Some (GteLte (VDate (day * day_ms)) (VDate ((day + 1) * day_ms))) \<and>
            (\<forall>t \<in> set found.
               map_of t ''completed'' = Some (VBool False) \<and>
               (\<exists>u. map_of t ''due'' = Some (VDate u) \<and> day * day_ms \<le> u \<and> u \<le> (day + 1) * day_ms)) \<and>
            (\<forall>u. day * day_ms \<le> u \<and> u < (day + 1) * day_ms \<longrightarrow>
               cond_holds (GteLte (VDate (day * day_ms)) (VDate ((day + 1) * day_ms))) (Some (VDate u))))))
   \<and> (map_of (query req) ''due'' = Some [] \<longrightarrow>
        GetAllTodos L req s = GetAllTodos L (req\<lparr>query := AList.delete ''due'' (query req)\<rparr>) s)"
proof (intro conjI impI)
  assume a: "(\<forall>v. ObjectId_isValid L v \<longrightarrow> new_ObjectId L v \<noteq> None) \<and>
    map_of (query req) ''due'' = Some d \<and> d \<noteq> [] \<and> d \<noteq> ''all''"
  then have lib: "\<And>v. ObjectId_isValid L v \<Longrightarrow> new_ObjectId L v \<noteq> None"
    and due: "map_of (query req) ''due'' = Some d" "d \<noteq> []" "d \<noteq> ''all''"
    by simp_all
  show "case moment_parse L (JStr d) of
       None \<Rightarrow>
         GetAllTodos L req s =
           (Inl (HttpError 400
              (Some (if truthy (req_query req ''listId'') \<and> \<not> ObjectId_isValid L (req_query req ''listId'')
                     then ''Invalid list ID!'' else ''Invalid due option!'')) None), s)
     | Some day \<Rightarrow>
         (if truthy (req_query req ''listId'') \<and> \<not> ObjectId_isValid L (req_query req ''listId'')
          then GetAllTodos L req s = (Inl (HttpError 400 (Some ''Invalid list ID!'') None), s)
          else \<exists>c found.
            GetAllTodos L req s =
              (Inr \<lparr>res_status = 200,
                    res_json = [(''total'', JsNumber (length found)), (''todos'', JsDocs found)]\<rparr>,
               s\<lparr>calls := calls s @ [Find (Fields c) None, CountDocuments (Fields c)]\<rparr>) \<and>
            found = filter (matches (Fields c)) (docs s) \<and>
            map_of c ''completed'' = Some (Eq (VBool False)) \<and>
            map_of c ''due'' = Some (GteLte (VDate (day * day_ms)) (VDate ((day + 1) * day_ms))) \<and>
            (\<forall>t \<in> set found.
               map_of t ''completed'' = Some (VBool False) \<and>
               (\<exists>u. map_of t ''due'' = Some (VDate u) \<and> day * day_ms \<le> u \<and> u \<le> (day + 1) * day_ms)) \<and>
            (\<forall>u. day * day_ms \<le> u \<and> u < (day + 1) * day_ms \<longrightarrow>
               cond_holds (GteLte (VDate (day * day_ms)) (VDate ((day + 1) * day_ms))) (Some (VDate u))))"
  proof (cases "moment_parse L (JStr d)")
    case None
    from GetAllTodos_due_unparsed [of L req d s, OF lib due None] None
    show ?thesis by simp
  next
    case (Some day)
    show ?thesis
    proof (cases "truthy (req_query req ''listId'') \<and> \<not> ObjectId_isValid L (req_query req ''listId'')")
      case True
      with GetAllTodos_due_parsed [of L req d day s, OF lib due Some] Some
      show ?thesis by simp
    next
      case False
      have "\<forall>u. day * day_ms \<le> u \<and> u < (day + 1) * day_ms \<longrightarrow>
               cond_holds (GteLte (VDate (day * day_ms)) (VDate ((day + 1) * day_ms))) (Some (VDate u))"
        unfolding cond_holds_date_range by auto
      with GetAllTodos_due_results [of L req d day s, OF lib due Some False] Some False
      show ?thesis by (simp del: cond_holds.simps) blast
    qed
  qed
next
  assume e: "map_of (query req) ''due'' = Some []"
  have "req_query (req\<lparr>query := AList.delete ''due'' (query req)\<rparr>) ''listId'' = req_query req ''listId''"
    by (simp add: req_query_def delete_conv)
  moreover have "js_or (req_query (req\<lparr>query := AList.delete ''due'' (query req)\<rparr>) ''due'') (JStr ''all'')
      = js_or (req_query req ''due'') (JStr ''all'')"
    using e by (simp add: req_query_def delete_conv js_or_def)
  ultimately show "GetAllTodos L req s = GetAllTodos L (req\<lparr>query := AList.delete ''due'' (query req)\<rparr>) s"
    by (simp add: GetAllTodos_def Let_def)
qed


theorem get_all_todos_due_option_witness:
  "(\<exists>c found.
      GetAllTodos lib0 req_due_day1 todo_store3 =
        (Inr \<lparr>res_status = 200,
              res_json = [(''total'', JsNumber (length found)), (''todos'', JsDocs found)]\<rparr>,
         todo_store3\<lparr>calls := calls todo_store3 @ [Find (Fields c) None, CountDocuments (Fields c)]\<rparr>) \<and>
      map_of c ''due'' = Some (GteLte (VDate (1 * day_ms)) (VDate ((1 + 1) * day_ms)))) \<and>
   GetAllTodos lib0 req_due_bad todo_store3 =
     (Inl (HttpError 400 (Some ''Invalid due option!'') None), todo_store3)"
proof -
  have lib: "\<forall>v. ObjectId_isValid lib0 v \<longrightarrow> new_ObjectId lib0 v \<noteq> None"
    by (simp add: lib0_def is_hex24_def split: jsval.splits)
  have d1: "map_of (query req_due_day1) ''due'' = Some ''01-02-1970''"
    and d2: "map_of (query req_due_bad) ''due'' = Some ''tomorrow''"
    and l1: "\<not> truthy (req_query req_due_day1 ''listId'')"
    and l2: "\<not> truthy (req_query req_due_bad ''listId'')"
    by (simp_all add: req_due_day1_def req_due_bad_def request0_def req_query_def)
  have p1: "moment_parse lib0 (JStr ''01-02-1970'') = Some 1"
    and p2: "moment_parse lib0 (JStr ''tomorrow'') = None"
    by (simp_all add: lib0_def)
  from get_all_todos_due_option [where L = lib0 and req = req_due_day1 and d = "''01-02-1970''"
      and s = todo_store3, THEN conjunct1] lib d1 p1 l1
  have 1: "\<exists>c found.
      GetAllTodos lib0 req_due_day1 todo_store3 =
        (Inr \<lparr>res_status = 200,
              res_json = [(''total'', JsNumber (length found)), (''todos'', JsDocs found)]\<rparr>,
         todo_store3\<lparr>calls := calls todo_store3 @ [Find (Fields c) None, CountDocuments (Fields c)]\<rparr>) \<and>
      map_of c ''due'' = Some (GteLte (VDate (1 * day_ms)) (VDate ((1 + 1) * day_ms)))"
    by (simp del: cond_holds.simps) blast
  from get_all_todos_due_option [where L = lib0 and req = req_due_bad and d = "''tomorrow''"
      and s = todo_store3, THEN conjunct1] lib d2 p2 l2
  have 2: "GetAllTodos lib0 req_due_bad todo_store3 =
     (Inl (HttpError 400 (Some ''Invalid due option!'') None), todo_store3)"
    by simp
  from 1 2 show ?thesis by (rule conjI)
qed

text \<open>
  C3 as stated fails on an empty \<^verbatim>\<open>due\<close> parameter, which is neither absent nor
  \<^verbatim>\<open>all\<close> and does not parse, yet the request succeeds without any \<^verbatim>\<open>due\<close> condition;
  and the upper bound is not exclusive: a todo due exactly at the start of the next day
  is returned.
\<close>

theorem get_all_todos_due_counterexample:
  "map_of (query req_due_empty) ''due'' = Some [] \<and>
   moment_parse lib0 (JStr []) = None \<and>
   GetAllTodos lib0 req_due_empty todo_store3 =
     (Inr \<lparr>res_status = 200, res_json = [(''total'', JsNumber 2), (''todos'', JsDocs [todo1, todo3])]\<rparr>,
      todo_store3\<lparr>calls :=
        [Find (Fields [(''completed'', Eq (VBool False))]) None,
         CountDocuments (Fields [(''completed'', Eq (VBool False))])]\<rparr>) \<and>
   moment_parse lib0 (JStr ''01-02-1970'') = Some 1 \<and>
   fst (GetAllTodos lib0 req_due_day1 todo_store3) =
     Inr \<lparr>res_status = 200, res_json = [(''total'', JsNumber 1), (''todos'', JsDocs [todo3])]\<rparr> \<and>
   map_of todo3 ''due'' = Some (VDate ((1 + 1) * day_ms))"
  by (simp add: GetAllTodos_def Let_def req_query_def js_or_def listId_option_def due_option_def
      find_docs_def countDocuments_def req_due_empty_def req_due_day1_def request0_def lib0_def
      todo_store3_def todo1_def todo2_def todo3_def val_less_def day_ms_def
      moment_set_hms0_def moment_add_days_def)

section \<open>The not-found message\<close>

text \<open>
  C2. For an ID that is well-formed and not stored, \<^verbatim>\<open>UpdateTodo\<close>, \<^verbatim>\<open>CompleteTodo\<close>,
  \<^verbatim>\<open>UncompleteTodo\<close> and \<^verbatim>\<open>DeleteTodo\<close> fail with status 404, and the message is
  \<^verbatim>\<open>Todo with ID <id> is not found!\<close>, which is not the template
  \<^verbatim>\<open>Cannot <action>, no todo whose ID is <id> found!\<close> of the specification and the tests.
\<close>

theorem not_found_message_differs:
  "fst (UpdateTodo lib0 todoValidator0 todoPriority0 req_update_missing todo_store) =
     Inl (HttpError 404 (Some ''Todo with ID 999999999999999999999999 is not found!'') None) \<and>
   fst (CompleteTodo lib0 todoValidator0 req_missing todo_store) =
     Inl (HttpError 404 (Some ''Todo with ID 999999999999999999999999 is not found!'') None) \<and>
   fst (UncompleteTodo lib0 todoValidator0 req_missing todo_store) =
     Inl (HttpError 404 (Some ''Todo with ID 999999999999999999999999 is not found!'') None) \<and>
   fst (DeleteTodo lib0 todoValidator0 req_missing todo_store) =
     Inl (HttpError 404 (Some ''Todo with ID 999999999999999999999999 is not found!'') None) \<and>
   spec_not_found_message ''complete'' ''999999999999999999999999'' =
     ''Cannot complete, no todo whose ID is 999999999999999999999999 found!'' \<and>
   ''Todo with ID 999999999999999999999999 is not found!'' \<noteq>
     spec_not_found_message ''update'' ''999999999999999999999999'' \<and>
   ''Todo with ID 999999999999999999999999 is not found!'' \<noteq>
     spec_not_found_message ''complete'' ''999999999999999999999999'' \<and>
   ''Todo with ID 999999999999999999999999 is not found!'' \<noteq>
     spec_not_found_message ''uncomplete'' ''999999999999999999999999'' \<and>
   ''Todo with ID 999999999999999999999999 is not found!'' \<noteq>
     spec_not_found_message ''delete'' ''999999999999999999999999''"
  by (simp add: UpdateTodo_def CompleteTodo_def UncompleteTodo_def DeleteTodo_def Let_def
      todo_id_def js_or_def req_param_def req_query_def req_body_def
      req_missing_def req_update_missing_def request0_def
      lib0_def todoValidator0_def todoPriority0_def all_valid_def
      is_hex24_def is_hex_def accept_def reject_def alice_def bob_def
      todo_store_def todo1_def todo2_def findOneAndUpdate_def findOneAndDelete_def cast_fields_def
      not_found_message_def spec_not_found_message_def)

end
